theory Spec2Isabelle
  imports Complex_Main
begin

section \<open>Data model (app/models.py)\<close>

text \<open>
  Chip amounts are Python floats in the source (\<^verbatim>\<open>amount: float\<close>); they are modelled as
  exact reals, so rounding is not part of the model. Attributes that the source attaches
  to a Player or a Game after construction (\<^verbatim>\<open>is_all_in\<close>, \<^verbatim>\<open>has_acted\<close>,
  \<^verbatim>\<open>current_bet\<close> of the game, ...) are fields of the records; the two attributes that
  one of the two constructors of a game leaves absent (\<^verbatim>\<open>side_pots\<close>, \<^verbatim>\<open>current_stage\<close>)
  are optional fields.
\<close>

record card =
  rank :: string
  suit :: string
  card_name :: string

record player =
  name :: string
  balance :: real
  cards :: "card list"
  current_bet :: real
  is_active :: bool
  host_url :: string
  is_all_in :: bool
  has_acted :: bool

record game =
  players :: "player list"
  game_is_active :: bool
  current_turn_order :: "string list"
  current_turn_index :: nat
  pot :: real
  deck :: "card list"
  game_current_bet :: real
  side_pots :: "real list option"
  community_cards :: "card list"
  current_stage :: "string option"

text \<open>
  \<^verbatim>\<open>HTTPException(status_code, detail)\<close>; the replies of the endpoints, without their
  \<^verbatim>\<open>message\<close> strings. \<^verbatim>\<open>DealerResponse\<close> is the reply of the remote dealer passed
  through unchanged.
\<close>

datatype http_error = HTTPException nat string

datatype response =
    DealerResponse string
  | BetPlaced real real real "string option"
  | FoldWinner string real
  | Folded "string list" "string option"
  | Joined
  | GameEnded

text \<open>
  What \<^verbatim>\<open>call_dealer_api\<close> gave back, as the endpoints test it
  (\<^verbatim>\<open>dealer_response and not "error" in dealer_response\<close>): a usable reply, or anything
  else (an error dictionary, an empty reply).
\<close>

datatype dealer_reply = DealerError | DealerJson string

section \<open>The process-wide game (app/init.py)\<close>

text \<open>
  The module variable \<^verbatim>\<open>_game\<close> is a \<^typ>\<open>game option\<close>. \<^verbatim>\<open>get_game\<close> replaces it by
  a fresh game when it is \<^verbatim>\<open>None\<close> or inactive; every endpoint below returns the value
  of the variable after the call.
\<close>

definition fresh_game :: game where
  "fresh_game = \<lparr>players = [], game_is_active = False, current_turn_order = [],
     current_turn_index = 0, pot = 0, deck = [], game_current_bet = 0,
     side_pots = Some [], community_cards = [], current_stage = None\<rparr>"

definition get_game :: "game option \<Rightarrow> game" where
  "get_game glob =
     (case glob of
        None \<Rightarrow> fresh_game
      | Some g \<Rightarrow> if \<not> game_is_active g then fresh_game else g)"

definition ranks :: "string list" where
  "ranks = ''2'' # ''3'' # ''4'' # ''5'' # ''6'' # ''7'' # ''8'' # ''9'' # ''10'' #
     ''J'' # ''Q'' # ''K'' # ''A'' # []"

text \<open>\<^verbatim>\<open>initialize_deck\<close>: suits outer, ranks inner; the shuffle is the environment's.\<close>

definition init_suits :: "string list" where
  "init_suits = [''Hearts'', ''Diamonds'', ''Clubs'', ''Spades'']"

definition initialize_deck :: "(card list \<Rightarrow> card list) \<Rightarrow> game \<Rightarrow> game" where
  "initialize_deck shuffle g =
     g\<lparr>deck := shuffle (concat (map (\<lambda>s. map (\<lambda>r.
          \<lparr>rank = r, suit = s, card_name = r @ '' of '' @ s\<rparr>) ranks) init_suits))\<rparr>"

text \<open>\<^verbatim>\<open>initialize_game(0)\<close>, the only call the endpoints make: no default players.\<close>

definition initialize_game0 :: "(card list \<Rightarrow> card list) \<Rightarrow> game" where
  "initialize_game0 shuffle =
     initialize_deck shuffle
       \<lparr>players = [], game_is_active = True, current_turn_order = [],
        current_turn_index = 0, pot = 0, deck = [], game_current_bet = 0,
        side_pots = None, community_cards = [], current_stage = Some ''pre_flop''\<rparr>"

text \<open>
  \<^verbatim>\<open>find_player_by_name\<close> returns a reference to the first player of that name; the
  reference is modelled as the player's position in \<^verbatim>\<open>game.players\<close>.
\<close>

fun first_named :: "player list \<Rightarrow> string \<Rightarrow> nat option" where
  "first_named [] n = None"
| "first_named (p # ps) n =
     (if name p = n then Some 0 else map_option Suc (first_named ps n))"

definition find_player_by_name :: "game option \<Rightarrow> string \<Rightarrow> nat option" where
  "find_player_by_name glob n = first_named (players (get_game glob)) n"

text \<open>An assignment to an attribute of the player object at position \<open>i\<close>.\<close>

definition set_player :: "game \<Rightarrow> nat \<Rightarrow> (player \<Rightarrow> player) \<Rightarrow> game" where
  "set_player g i f = g\<lparr>players := (players g)[i := f (players g ! i)]\<rparr>"

definition active_names :: "game \<Rightarrow> string list" where
  "active_names g = map name (filter is_active (players g))"

section \<open>Turn engine (app/playapi.py, advance_turn)\<close>

text \<open>
  \<^verbatim>\<open>current_turn_index\<close> is a natural number: the source only ever assigns it 0 or a
  remainder modulo a positive length.

  A player can take a turn when the lookup finds one who is active and not all-in
  (\<^verbatim>\<open>next_player and next_player.is_active and not next_player.is_all_in\<close>).
\<close>

definition can_act :: "game \<Rightarrow> nat option \<Rightarrow> bool" where
  "can_act g r =
     (case r of
        None \<Rightarrow> False
      | Some i \<Rightarrow> is_active (players g ! i) \<and> \<not> is_all_in (players g ! i))"

text \<open>
  The \<^verbatim>\<open>while iteration_count < max_iterations\<close> loop, on the game and the counter; it
  returns both when it stops.
\<close>

function advance_loop :: "game \<Rightarrow> nat \<Rightarrow> nat \<Rightarrow> nat \<Rightarrow> game \<times> nat" where
  "advance_loop g original_index max_iterations iteration_count =
     (if iteration_count < max_iterations then
        (if (current_turn_index g + 1) mod length (current_turn_order g) = original_index
         then (g\<lparr>current_turn_index :=
                   (current_turn_index g + 1) mod length (current_turn_order g)\<rparr>,
               iteration_count + 1)
         else if can_act g (find_player_by_name (Some g)
                   (current_turn_order g !
                      ((current_turn_index g + 1) mod length (current_turn_order g))))
         then (g\<lparr>current_turn_index :=
                   (current_turn_index g + 1) mod length (current_turn_order g)\<rparr>,
               iteration_count + 1)
         else advance_loop
                (g\<lparr>current_turn_index :=
                     (current_turn_index g + 1) mod length (current_turn_order g)\<rparr>)
                original_index max_iterations (iteration_count + 1))
      else (g, iteration_count))"
  by pat_completeness auto
termination
  by (relation "measure (\<lambda>(g, original_index, max_iterations, iteration_count).
        max_iterations - iteration_count)") auto

declare advance_loop.simps [simp del]

text \<open>
  \<^verbatim>\<open>advance_turn\<close>: an empty turn order is rebuilt from the active players; with no
  player who is active and not all-in nothing is done; otherwise the loop runs from the
  current index with \<^verbatim>\<open>max_iterations = len(current_turn_order)\<close>. The source's second
  test for an empty turn order comes after the first one has returned and is never
  reached. The lookups go through \<^verbatim>\<open>find_player_by_name\<close>, that is through the
  process-wide game, which is the game passed in at both call sites.
\<close>

definition advance_turn :: "game \<Rightarrow> game" where
  "advance_turn g =
     (if current_turn_order g = [] then
        g\<lparr>current_turn_order := active_names g, current_turn_index := 0\<rparr>
      else if filter (\<lambda>p. is_active p \<and> \<not> is_all_in p) (players g) = [] then g
      else fst (advance_loop g (current_turn_index g) (length (current_turn_order g)) 0))"

text \<open>
  The number of index steps one call of \<^verbatim>\<open>advance_turn\<close> makes: the final value of
  \<^verbatim>\<open>iteration_count\<close>, and none on the two paths that return before the loop.
\<close>

definition advance_turn_iterations :: "game \<Rightarrow> nat" where
  "advance_turn_iterations g =
     (if current_turn_order g = [] then 0
      else if filter (\<lambda>p. is_active p \<and> \<not> is_all_in p) (players g) = [] then 0
      else snd (advance_loop g (current_turn_index g) (length (current_turn_order g)) 0))"

text \<open>
  \<^verbatim>\<open>game.current_turn_order[game.current_turn_index] if game.current_turn_order and
  game.current_turn_index < len(game.current_turn_order) else None\<close>
\<close>

definition next_turn :: "game \<Rightarrow> string option" where
  "next_turn g =
     (if current_turn_order g \<noteq> [] \<and> current_turn_index g < length (current_turn_order g)
      then Some (current_turn_order g ! current_turn_index g) else None)"

section \<open>Betting engine (app/playapi.py, place_bet and fold)\<close>

text \<open>
  Both endpoints first ask the remote dealer and pass its reply through when it is usable;
  otherwise they run the local implementation below. The \<^verbatim>\<open>except Exception\<close> handler
  that turns any other exception into a status 500 has no branch in the model: no
  statement of the local implementation can raise (indices are taken modulo the length
  of a turn order that is not empty, and \<^verbatim>\<open>next_turn\<close> is guarded).

  The part of both endpoints up to the lookup: fetch the game, activate it if it is
  not active.
\<close>

definition activated :: "game option \<Rightarrow> game" where
  "activated glob =
     (if \<not> game_is_active (get_game glob) then (get_game glob)\<lparr>game_is_active := True\<rparr>
      else get_game glob)"

definition init_turn_order :: "game \<Rightarrow> game" where
  "init_turn_order g =
     (if current_turn_order g = [] then
        g\<lparr>current_turn_order := active_names g, current_turn_index := 0\<rparr>
      else g)"

text \<open>The loop that resets \<^verbatim>\<open>has_acted\<close> after a raise by the player named \<open>n\<close>.\<close>

definition reset_others :: "string \<Rightarrow> player list \<Rightarrow> player list" where
  "reset_others n ps =
     map (\<lambda>p. if name p \<noteq> n \<and> is_active p \<and> \<not> is_all_in p
               then p\<lparr>has_acted := False\<rparr> else p) ps"

definition place_bet ::
  "dealer_reply \<Rightarrow> game option \<Rightarrow> string \<Rightarrow> real \<Rightarrow> game option \<times> (http_error + response)" where
  "place_bet dealer_response glob request_name amount =
     (case dealer_response of
        DealerJson r \<Rightarrow> (glob, Inr (DealerResponse r))
      | DealerError \<Rightarrow>
          let g1 = activated glob in
          case find_player_by_name (Some g1) request_name of
            None \<Rightarrow> (Some g1, Inl (HTTPException 404 ''Player not found''))
          | Some i \<Rightarrow>
              let g2 = (if \<not> is_active (players g1 ! i)
                        then set_player g1 i (\<lambda>p. p\<lparr>is_active := True\<rparr>) else g1);
                  g3 = init_turn_order g2;
                  table_bet = game_current_bet g3
              in if amount \<le> 0
                 then (Some g3, Inl (HTTPException 400 ''Bet amount must be positive''))
                 else
                   let g4 = (if amount > balance (players g3 ! i)
                             then set_player g3 i (\<lambda>p. p\<lparr>balance := max 1000 (amount * 2)\<rparr>)
                             else g3);
                       g5 = set_player g4 i (\<lambda>p. p\<lparr>balance := balance p - amount\<rparr>);
                       g6 = set_player g5 i (\<lambda>p. p\<lparr>current_bet := amount\<rparr>);
                       g7 = g6\<lparr>pot := pot g6 + amount\<rparr>;
                       g8 = (if amount > table_bet
                             then g7\<lparr>game_current_bet := amount,
                                    players := reset_others (name (players g7 ! i)) (players g7)\<rparr>
                             else g7);
                       g9 = set_player g8 i (\<lambda>p. p\<lparr>has_acted := True\<rparr>);
                       g10 = advance_turn g9
                   in (Some g10,
                       Inr (BetPlaced (balance (players g10 ! i)) (pot g10)
                              (game_current_bet g10) (next_turn g10))))"

text \<open>\<^verbatim>\<open>list.index\<close> of an element that is in the list.\<close>

fun index_of :: "'a list \<Rightarrow> 'a \<Rightarrow> nat" where
  "index_of [] x = 0"
| "index_of (y # ys) x = (if y = x then 0 else Suc (index_of ys x))"

text \<open>The turn order after the fold of the player named \<open>n\<close>.\<close>

definition fold_turn_order :: "string \<Rightarrow> game \<Rightarrow> game" where
  "fold_turn_order n g =
     (if current_turn_order g = [] then
        g\<lparr>current_turn_order := active_names g, current_turn_index := 0\<rparr>
      else if n \<in> set (current_turn_order g) then
        (let idx = index_of (current_turn_order g) n;
             g' = g\<lparr>current_turn_order := remove1 n (current_turn_order g)\<rparr>
         in if idx \<le> current_turn_index g' \<and> current_turn_order g' \<noteq> []
            then g'\<lparr>current_turn_index :=
                      current_turn_index g' mod length (current_turn_order g')\<rparr>
            else g')
      else g)"

text \<open>Position of the first active player: \<^verbatim>\<open>active_players[0]\<close> as an object.\<close>

fun first_active :: "player list \<Rightarrow> nat" where
  "first_active [] = 0"
| "first_active (p # ps) = (if is_active p then 0 else Suc (first_active ps))"

definition fold_action ::
  "dealer_reply \<Rightarrow> game option \<Rightarrow> string \<Rightarrow> game option \<times> (http_error + response)" where
  "fold_action dealer_response glob request_name =
     (case dealer_response of
        DealerJson r \<Rightarrow> (glob, Inr (DealerResponse r))
      | DealerError \<Rightarrow>
          let g1 = activated glob in
          case find_player_by_name (Some g1) request_name of
            None \<Rightarrow> (Some g1, Inl (HTTPException 404 ''Player not found''))
          | Some i \<Rightarrow>
              let g2 = set_player g1 i (\<lambda>p. p\<lparr>is_active := True\<rparr>);
                  g3 = set_player g2 i (\<lambda>p. p\<lparr>has_acted := True\<rparr>);
                  g4 = set_player g3 i (\<lambda>p. p\<lparr>is_active := False\<rparr>);
                  g5 = fold_turn_order (name (players g4 ! i)) g4;
                  active_players = filter is_active (players g5)
              in if length active_players = 1 then
                   let w = first_active (players g5);
                       g6 = set_player g5 w (\<lambda>p. p\<lparr>balance := balance p + pot g5\<rparr>);
                       g7 = g6\<lparr>pot := 0\<rparr>
                   in (Some g7,
                       Inr (FoldWinner (name (players g7 ! w)) (balance (players g7 ! w))))
                 else
                   let g6 = (if active_players \<noteq> [] then advance_turn g5 else g5)
                   in (Some g6, Inr (Folded (map name active_players) (next_turn g6))))"

section \<open>Join and deal (app/playapi.py, join_game)\<close>

text \<open>
  \<^verbatim>\<open>str.capitalize\<close> on ASCII text: the first character in upper case, the others in
  lower case. The suits it is applied to are ASCII constants.
\<close>

definition upper_char :: "char \<Rightarrow> char" where
  "upper_char c =
     (if 97 \<le> (of_char c :: nat) \<and> (of_char c :: nat) \<le> 122
      then char_of ((of_char c :: nat) - 32) else c)"

definition lower_char :: "char \<Rightarrow> char" where
  "lower_char c =
     (if 65 \<le> (of_char c :: nat) \<and> (of_char c :: nat) \<le> 90
      then char_of ((of_char c :: nat) + 32) else c)"

fun capitalize :: "string \<Rightarrow> string" where
  "capitalize [] = []"
| "capitalize (c # cs) = upper_char c # map lower_char cs"

definition suits :: "string list" where
  "suits = [''hearts'', ''diamonds'', ''clubs'', ''spades'']"

text \<open>The 52 cards as the endpoints of playapi.py build them, before the shuffle.\<close>

definition new_deck :: "card list" where
  "new_deck =
     concat (map (\<lambda>s. map (\<lambda>r.
       \<lparr>rank = r, suit = s, card_name = r @ '' of '' @ capitalize s\<rparr>) ranks) suits)"

definition new_player :: "string \<Rightarrow> string \<Rightarrow> player" where
  "new_player n url =
     \<lparr>name = n, balance = 1000, cards = [], current_bet = 0, is_active = True,
      host_url = url, is_all_in = False, has_acted = False\<rparr>"

text \<open>
  \<^verbatim>\<open>if game.deck and len(game.deck) >= 2\<close>: two \<^verbatim>\<open>pop(0)\<close> into the hand; otherwise
  nothing is dealt. The result is the hand and the deck left.
\<close>

fun deal_two :: "card list \<Rightarrow> card list \<times> card list" where
  "deal_two (c1 # c2 # rest) = ([c1, c2], rest)"
| "deal_two d = ([], d)"

definition join_game ::
  "(card list \<Rightarrow> card list) \<Rightarrow> game option \<Rightarrow> string \<Rightarrow> string
     \<Rightarrow> game option \<times> (http_error + response)" where
  "join_game shuffle glob request_name request_host_url =
     (let g0 = get_game glob;
          g1 = (if \<not> game_is_active g0 then
                  (let gi = get_game (Some (initialize_game0 shuffle))
                   in if deck gi = [] then gi\<lparr>deck := shuffle new_deck\<rparr> else gi)
                else g0)
      in case find_player_by_name (Some g1) request_name of
           Some i \<Rightarrow>
             (Some g1, Inl (HTTPException 400
                (''Player name '' @ [CHR 39] @ request_name @ [CHR 39] @ '' already exists'')))
         | None \<Rightarrow>
             let g2 = (if deck g1 = [] then g1\<lparr>deck := shuffle new_deck\<rparr> else g1);
                 dealt = deal_two (deck g2);
                 p = (new_player request_name request_host_url)\<lparr>cards := fst dealt\<rparr>;
                 g3 = g2\<lparr>deck := snd dealt\<rparr>;
                 g4 = g3\<lparr>players := players g3 @ [p]\<rparr>;
                 g5 = g4\<lparr>current_turn_order := current_turn_order g4 @ [name p]\<rparr>
             in (Some g5, Inr Joined))"

section \<open>Ending a game (app/playapi.py, end_game)\<close>

definition end_game :: "game option \<Rightarrow> game option \<times> response" where
  "end_game glob =
     (let g0 = get_game glob;
          g1 = g0\<lparr>game_is_active := False\<rparr>;
          g2 = g1\<lparr>pot := 0\<rparr>;
          g3 = (if side_pots g2 \<noteq> None then g2\<lparr>side_pots := Some []\<rparr> else g2);
          g4 = g3\<lparr>players :=
                 map (\<lambda>p. p\<lparr>cards := [], current_bet := 0, is_all_in := False,
                            has_acted := False\<rparr>) (players g3)\<rparr>
      in (Some g4, GameEnded))"

section \<open>Showdown (app/playapi.py, determine_winner)\<close>

definition CARD_VALUES :: "string \<rightharpoonup> int" where
  "CARD_VALUES = map_of
     [(''2'', 2), (''3'', 3), (''4'', 4), (''5'', 5), (''6'', 6), (''7'', 7), (''8'', 8),
      (''9'', 9), (''10'', 10), (''J'', 11), (''Q'', 12), (''K'', 13), (''A'', 14)]"

text \<open>\<^verbatim>\<open>CARD_VALUES.get(card.rank, 0)\<close>\<close>

definition card_value :: "card \<Rightarrow> int" where
  "card_value c = (case CARD_VALUES (rank c) of None \<Rightarrow> 0 | Some v \<Rightarrow> v)"

datatype py_error = ValueError

text \<open>Python's \<^verbatim>\<open>max\<close> of a list: a \<^verbatim>\<open>ValueError\<close> on the empty list.\<close>

fun py_max :: "int list \<Rightarrow> py_error + int" where
  "py_max [] = Inl ValueError"
| "py_max (x # xs) = Inr (fold max xs x)"

text \<open>
  The dictionaries of \<^verbatim>\<open>player_scores\<close>, and what \<^verbatim>\<open>determine_winner\<close> returns:
  \<^verbatim>\<open>None\<close>, the dictionary of a default win (a name and the hand type), one dictionary
  of \<^verbatim>\<open>player_scores\<close>, or a list of them.
\<close>

record score_entry =
  entry_name :: string
  score :: int
  hand_type :: string

datatype winner_info =
    NoWinner
  | DefaultWin string string
  | OneWinner score_entry
  | Winners "score_entry list"

fun player_scores :: "player list \<Rightarrow> py_error + score_entry list" where
  "player_scores [] = Inr []"
| "player_scores (p # ps) =
     (if cards p = [] \<or> length (cards p) < 2 then player_scores ps
      else case py_max (map card_value (cards p)) of
             Inl e \<Rightarrow> Inl e
           | Inr highest_card \<Rightarrow>
               (case player_scores ps of
                  Inl e \<Rightarrow> Inl e
                | Inr rest \<Rightarrow>
                    Inr (\<lparr>entry_name = name p, score = highest_card,
                          hand_type = ''high_card''\<rparr> # rest)))"

definition determine_winner :: "game \<Rightarrow> py_error + winner_info" where
  "determine_winner g =
     (let active_players = filter is_active (players g)
      in if active_players = [] then Inr NoWinner
         else if length active_players = 1
         then Inr (DefaultWin (name (hd active_players)) ''default_win'')
         else case player_scores active_players of
                Inl e \<Rightarrow> Inl e
              | Inr scores \<Rightarrow>
                  if scores = [] then Inr NoWinner
                  else case py_max (map score scores) of
                         Inl e \<Rightarrow> Inl e
                       | Inr max_score \<Rightarrow>
                           let winners = filter (\<lambda>e. score e = max_score) scores
                           in if length winners = 1 then Inr (OneWinner (hd winners))
                              else Inr (Winners winners))"

section \<open>Example states\<close>

text \<open>Concrete players and games on which the properties below are evaluated.\<close>

definition mk_player :: "string \<Rightarrow> real \<Rightarrow> bool \<Rightarrow> bool \<Rightarrow> player" where
  "mk_player n b act allin =
     \<lparr>name = n, balance = b, cards = [], current_bet = 0, is_active = act,
      host_url = [], is_all_in = allin, has_acted = False\<rparr>"

definition stuck_game :: game where
  "stuck_game =
     \<lparr>players = [mk_player ''Ann'' 0 True True, mk_player ''Bob'' 900 False False,
                 mk_player ''Cy'' 1000 True False],
      game_is_active = True, current_turn_order = [''Ann'', ''Bob''],
      current_turn_index = 1, pot = 100, deck = [], game_current_bet = 50,
      side_pots = Some [], community_cards = [], current_stage = Some ''pre_flop''\<rparr>"

definition table_game :: game where
  "table_game =
     \<lparr>players =
        [\<lparr>name = ''Ann'', balance = 30, cards = [], current_bet = 20, is_active = True,
          host_url = [], is_all_in = False, has_acted = False\<rparr>,
         \<lparr>name = ''Bob'', balance = 900, cards = [], current_bet = 0, is_active = False,
          host_url = [], is_all_in = False, has_acted = True\<rparr>,
         \<lparr>name = ''Cy'', balance = 1000, cards = [], current_bet = 20, is_active = True,
          host_url = [], is_all_in = False, has_acted = True\<rparr>],
      game_is_active = True, current_turn_order = [''Ann'', ''Cy''],
      current_turn_index = 0, pot = 100, deck = [], game_current_bet = 20,
      side_pots = Some [], community_cards = [], current_stage = Some ''pre_flop''\<rparr>"

definition mk_card :: "string \<Rightarrow> string \<Rightarrow> card" where
  "mk_card r s = \<lparr>rank = r, suit = s, card_name = r @ '' of '' @ capitalize s\<rparr>"

definition mk_hand :: "string \<Rightarrow> bool \<Rightarrow> card list \<Rightarrow> player" where
  "mk_hand n act cs =
     \<lparr>name = n, balance = 1000, cards = cs, current_bet = 0, is_active = act,
      host_url = [], is_all_in = False, has_acted = False\<rparr>"

definition mk_game :: "player list \<Rightarrow> game" where
  "mk_game ps =
     \<lparr>players = ps, game_is_active = True, current_turn_order = map name ps,
      current_turn_index = 0, pot = 0, deck = [], game_current_bet = 0,
      side_pots = None, community_cards = [], current_stage = Some ''pre_flop''\<rparr>"

definition showdown_game :: game where
  "showdown_game = mk_game
     [mk_hand ''Ann'' True [mk_card ''A'' ''spades'', mk_card ''2'' ''hearts''],
      mk_hand ''Bob'' True [mk_card ''K'' ''clubs'', mk_card ''Q'' ''clubs''],
      mk_hand ''Cy'' True [mk_card ''A'' ''hearts''],
      mk_hand ''Dee'' False [mk_card ''A'' ''clubs'', mk_card ''A'' ''diamonds'']]"

definition tie_game :: game where
  "tie_game = mk_game
     [mk_hand ''Ann'' True [mk_card ''A'' ''spades'', mk_card ''2'' ''hearts''],
      mk_hand ''Bob'' True [mk_card ''A'' ''clubs'', mk_card ''K'' ''clubs'']]"

definition lone_game :: game where
  "lone_game = mk_game
     [mk_hand ''Ann'' True [],
      mk_hand ''Bob'' False [mk_card ''A'' ''clubs'', mk_card ''K'' ''clubs'']]"

definition bare_game :: game where
  "bare_game = mk_game
     [mk_hand ''Ann'' True [mk_card ''A'' ''spades''],
      mk_hand ''Bob'' True []]"

definition kings_game :: game where
  "kings_game = mk_game
     [mk_hand ''Ann'' True [mk_card ''9'' ''clubs'', mk_card ''3'' ''clubs''],
      mk_hand ''Bob'' True [mk_card ''4'' ''hearts'', mk_card ''K'' ''spades''],
      mk_hand ''Cy'' True [mk_card ''Q'' ''hearts'', mk_card ''J'' ''diamonds'']]"

definition no_order_game :: game where
  "no_order_game = table_game\<lparr>current_turn_order := [], current_turn_index := 0\<rparr>"

definition ended_game :: game where
  "ended_game = table_game\<lparr>game_is_active := False\<rparr>"

definition one_card_game :: game where
  "one_card_game = table_game\<lparr>deck := [mk_card ''A'' ''spades'']\<rparr>"

section \<open>Lemmas about the turn engine\<close>

lemma advance_loop_stop:
  "\<not> c < m \<Longrightarrow> advance_loop g oi m c = (g, c)"
  by (subst advance_loop.simps) simp

lemma advance_loop_found:
  assumes "c < m"
    and "(current_turn_index g + 1) mod length (current_turn_order g) = oi \<or>
       can_act g (find_player_by_name (Some g) (current_turn_order g !
         ((current_turn_index g + 1) mod length (current_turn_order g))))"
  shows "advance_loop g oi m c =
    (g\<lparr>current_turn_index := (current_turn_index g + 1) mod length (current_turn_order g)\<rparr>,
     c + 1)"
  using assms by (subst advance_loop.simps) auto

lemma advance_loop_next:
  assumes "c < m"
    and "(current_turn_index g + 1) mod length (current_turn_order g) \<noteq> oi"
    and "\<not> can_act g (find_player_by_name (Some g) (current_turn_order g !
         ((current_turn_index g + 1) mod length (current_turn_order g))))"
  shows "advance_loop g oi m c =
    advance_loop
      (g\<lparr>current_turn_index := (current_turn_index g + 1) mod length (current_turn_order g)\<rparr>)
      oi m (c + 1)"
  using assms by (subst advance_loop.simps) simp

lemma advance_loop_frame:
  "\<exists>k. fst (advance_loop g oi m c) = g\<lparr>current_turn_index := k\<rparr>"
proof (induction g oi m c rule: advance_loop.induct)
  case (1 g oi m c)
  let ?k = "(current_turn_index g + 1) mod length (current_turn_order g)"
  let ?g = "g\<lparr>current_turn_index := ?k\<rparr>"
  consider (stop) "\<not> c < m"
    | (found) "c < m" "?k = oi \<or> can_act g (find_player_by_name (Some g) (current_turn_order g ! ?k))"
    | (nxt) "c < m" "?k \<noteq> oi" "\<not> can_act g (find_player_by_name (Some g) (current_turn_order g ! ?k))"
    by blast
  then show ?case
  proof cases
    case stop
    then have "fst (advance_loop g oi m c) = g\<lparr>current_turn_index := current_turn_index g\<rparr>"
      by (simp add: advance_loop_stop)
    then show ?thesis by blast
  next
    case found
    then have "fst (advance_loop g oi m c) = ?g"
      by (simp add: advance_loop_found)
    then show ?thesis by blast
  next
    case nxt
    from nxt "1.IH" obtain k where
      "fst (advance_loop ?g oi m (c + 1)) = ?g\<lparr>current_turn_index := k\<rparr>"
      by blast
    with nxt have "fst (advance_loop g oi m c) = g\<lparr>current_turn_index := k\<rparr>"
      by (simp add: advance_loop_next)
    then show ?thesis by blast
  qed
qed

lemma advance_loop_count:
  "c \<le> m \<Longrightarrow> snd (advance_loop g oi m c) \<le> m"
proof (induction g oi m c rule: advance_loop.induct)
  case (1 g oi m c)
  let ?k = "(current_turn_index g + 1) mod length (current_turn_order g)"
  let ?g = "g\<lparr>current_turn_index := ?k\<rparr>"
  consider (stop) "\<not> c < m"
    | (found) "c < m" "?k = oi \<or> can_act g (find_player_by_name (Some g) (current_turn_order g ! ?k))"
    | (nxt) "c < m" "?k \<noteq> oi" "\<not> can_act g (find_player_by_name (Some g) (current_turn_order g ! ?k))"
    by blast
  then show ?case
  proof cases
    case stop
    with "1.prems" show ?thesis by (simp add: advance_loop_stop)
  next
    case found
    then show ?thesis by (simp add: advance_loop_found)
  next
    case nxt
    with "1.IH" have "snd (advance_loop ?g oi m (c + 1)) \<le> m" by simp
    with nxt show ?thesis by (simp add: advance_loop_next)
  qed
qed

lemma can_act_index [simp]: "can_act (g\<lparr>current_turn_index := k\<rparr>) r = can_act g r"
  by (simp add: can_act_def split: option.split)

lemma find_player_index [simp]:
  "find_player_by_name (Some (g\<lparr>current_turn_index := k\<rparr>)) n = find_player_by_name (Some g) n"
  by (simp add: find_player_by_name_def get_game_def)

lemma advance_loop_no_eligible:
  assumes "oi < length (current_turn_order g)"
    and "\<forall>n \<in> set (current_turn_order g). \<not> can_act g (find_player_by_name (Some g) n)"
    and "c \<le> length (current_turn_order g)"
    and "current_turn_index g = (oi + c) mod length (current_turn_order g)"
  shows "current_turn_index (fst (advance_loop g oi (length (current_turn_order g)) c)) = oi"
  using assms
proof (induction g oi "length (current_turn_order g)" c rule: advance_loop.induct)
  case (1 g oi c)
  let ?n = "length (current_turn_order g)"
  let ?k = "(current_turn_index g + 1) mod ?n"
  let ?g = "g\<lparr>current_turn_index := ?k\<rparr>"
  show ?case
  proof (cases "c < ?n")
    case False
    with "1.prems" have "c = ?n" by simp
    with "1.prems" show ?thesis by (simp add: advance_loop_stop)
  next
    case True
    have k: "?k = (oi + (c + 1)) mod ?n"
      using "1.prems"(4) by (simp add: mod_Suc_eq)
    show ?thesis
    proof (cases "?k = oi")
      case True
      with \<open>c < ?n\<close> show ?thesis by (simp add: advance_loop_found)
    next
      case False
      have "0 < ?n" using "1.prems"(1) by (cases "current_turn_order g") simp_all
      then have "?k < ?n" by simp
      then have "current_turn_order g ! ?k \<in> set (current_turn_order g)" by simp
      with "1.prems"(2) have na: "\<not> can_act g (find_player_by_name (Some g) (current_turn_order g ! ?k))"
        by blast
      from False na \<open>c < ?n\<close> have eq: "advance_loop g oi ?n c = advance_loop ?g oi ?n (c + 1)"
        by (simp add: advance_loop_next)
      have "current_turn_index (fst (advance_loop ?g oi (length (current_turn_order ?g)) (c + 1))) = oi"
        using False na \<open>c < ?n\<close> "1.prems" k
        by (intro "1.hyps") simp_all
      with eq show ?thesis by simp
    qed
  qed
qed

section \<open>Properties of the turn engine\<close>

text \<open>
  Claim C6. \<^verbatim>\<open>advance_turn\<close> makes at most \<^verbatim>\<open>len(current_turn_order)\<close> index steps, and
  when the index points into the turn order and no name of the turn order resolves to a
  player who is active and not all-in, the call leaves \<^verbatim>\<open>current_turn_index\<close>, and in
  fact the whole game, as it was. The function is total, as the termination proof of
  \<^const>\<open>advance_loop\<close> shows. That the index points into a turn order that is not
  empty is the invariant of the data model; on an empty turn order the call rebuilds the
  order and the index is 0 afterwards.
\<close>

theorem advance_turn_bounded_noop:
  "advance_turn_iterations g \<le> length (current_turn_order g) \<and>
   (current_turn_index g < length (current_turn_order g) \<longrightarrow>
    (\<forall>n \<in> set (current_turn_order g). \<forall>i. find_player_by_name (Some g) n = Some i \<longrightarrow>
        \<not> is_active (players g ! i) \<or> is_all_in (players g ! i)) \<longrightarrow>
    current_turn_index (advance_turn g) = current_turn_index g \<and> advance_turn g = g) \<and>
   (current_turn_order g = [] \<longrightarrow> current_turn_index (advance_turn g) = 0)"
proof (intro conjI impI)
  assume "current_turn_order g = []"
  then show "current_turn_index (advance_turn g) = 0"
    by (simp add: advance_turn_def)
next
  show "advance_turn_iterations g \<le> length (current_turn_order g)"
    using advance_loop_count [of 0 "length (current_turn_order g)" g "current_turn_index g"]
    by (simp add: advance_turn_iterations_def)
next
  assume idx: "current_turn_index g < length (current_turn_order g)"
    and none: "\<forall>n \<in> set (current_turn_order g). \<forall>i. find_player_by_name (Some g) n = Some i \<longrightarrow>
        \<not> is_active (players g ! i) \<or> is_all_in (players g ! i)"
  from none have na: "\<forall>n \<in> set (current_turn_order g). \<not> can_act g (find_player_by_name (Some g) n)"
    by (auto simp: can_act_def split: option.splits)
  let ?r = "advance_loop g (current_turn_index g) (length (current_turn_order g)) 0"
  have k: "current_turn_index (fst ?r) = current_turn_index g"
    using advance_loop_no_eligible [OF idx na, of 0] idx by simp
  obtain k' where "fst ?r = g\<lparr>current_turn_index := k'\<rparr>"
    using advance_loop_frame by blast
  with k have loop: "fst ?r = g" by simp
  from idx have ne: "current_turn_order g \<noteq> []" by auto
  show same: "advance_turn g = g"
    using ne loop by (simp add: advance_turn_def)
  show "current_turn_index (advance_turn g) = current_turn_index g"
    using same by simp
qed

text \<open>
  An instance in which the loop itself runs: the turn order holds an all-in and a folded
  player, and a third player outside the turn order could still act.
\<close>

theorem advance_turn_bounded_noop_witness:
  "current_turn_index stuck_game < length (current_turn_order stuck_game) \<and>
   current_turn_order stuck_game = [''Ann'', ''Bob''] \<and>
   find_player_by_name (Some stuck_game) ''Ann'' = Some 0 \<and>
   is_all_in (players stuck_game ! 0) \<and>
   find_player_by_name (Some stuck_game) ''Bob'' = Some 1 \<and>
   \<not> is_active (players stuck_game ! 1) \<and>
   filter (\<lambda>p. is_active p \<and> \<not> is_all_in p) (players stuck_game) \<noteq> [] \<and>
   advance_turn_iterations stuck_game \<le> 2 \<and>
   current_turn_index (advance_turn stuck_game) = 1 \<and>
   advance_turn stuck_game = stuck_game"
proof -
  have h1: "current_turn_index stuck_game < length (current_turn_order stuck_game)"
    by (simp add: stuck_game_def)
  have f: "find_player_by_name (Some stuck_game) ''Ann'' = Some 0"
    "find_player_by_name (Some stuck_game) ''Bob'' = Some 1"
    "is_all_in (players stuck_game ! 0)" "\<not> is_active (players stuck_game ! 1)"
    by (simp_all add: stuck_game_def find_player_by_name_def get_game_def mk_player_def)
  have l: "current_turn_order stuck_game = [''Ann'', ''Bob'']" "current_turn_index stuck_game = 1"
    by (simp_all add: stuck_game_def)
  have h2: "\<forall>n \<in> set (current_turn_order stuck_game). \<forall>i.
      find_player_by_name (Some stuck_game) n = Some i \<longrightarrow>
        \<not> is_active (players stuck_game ! i) \<or> is_all_in (players stuck_game ! i)"
    using f by (simp add: l)
  have h3: "filter (\<lambda>p. is_active p \<and> \<not> is_all_in p) (players stuck_game) \<noteq> []"
    by (simp add: stuck_game_def mk_player_def)
  show ?thesis
    using advance_turn_bounded_noop [of stuck_game] h1 h2 h3 f l by simp
qed

section \<open>Lemmas about the lookup and the betting engine\<close>

lemma first_named_Some:
  "first_named ps n = Some i \<Longrightarrow> i < length ps \<and> name (ps ! i) = n"
proof (induction ps arbitrary: i)
  case Nil
  then show ?case by simp
next
  case (Cons p ps)
  then show ?case by (cases "name p = n") auto
qed

lemma known_player_active:
  assumes "find_player_by_name glob n = Some i"
  shows "game_is_active (get_game glob)"
proof (rule ccontr)
  assume "\<not> game_is_active (get_game glob)"
  then have "get_game glob = fresh_game"
    by (auto simp: get_game_def split: option.splits if_splits)
  with assms show False by (simp add: find_player_by_name_def fresh_game_def)
qed

lemma get_game_active: "game_is_active g \<Longrightarrow> get_game (Some g) = g"
  by (simp add: get_game_def)

lemma activated_known:
  assumes "find_player_by_name glob n = Some i"
  shows "activated glob = get_game glob"
  using known_player_active [OF assms] by (simp add: activated_def)

lemma find_known:
  assumes "find_player_by_name glob n = Some i"
  shows "find_player_by_name (Some (get_game glob)) n = Some i"
  using assms known_player_active [OF assms]
  by (simp add: find_player_by_name_def get_game_active)

lemma advance_turn_frame:
  "\<exists>ord k. advance_turn g = g\<lparr>current_turn_order := ord, current_turn_index := k\<rparr>"
proof -
  consider (a) "current_turn_order g = []"
    | (b) "current_turn_order g \<noteq> []" "filter (\<lambda>p. is_active p \<and> \<not> is_all_in p) (players g) = []"
    | (c) "current_turn_order g \<noteq> []" "filter (\<lambda>p. is_active p \<and> \<not> is_all_in p) (players g) \<noteq> []"
    by blast
  then show ?thesis
  proof cases
    case a
    then show ?thesis by (auto simp: advance_turn_def)
  next
    case b
    then have "advance_turn g = g\<lparr>current_turn_order := current_turn_order g, current_turn_index := current_turn_index g\<rparr>"
      by (simp add: advance_turn_def)
    then show ?thesis by blast
  next
    case c
    obtain k where "fst (advance_loop g (current_turn_index g) (length (current_turn_order g)) 0) = g\<lparr>current_turn_index := k\<rparr>"
      using advance_loop_frame by blast
    with c have "advance_turn g = g\<lparr>current_turn_order := current_turn_order g, current_turn_index := k\<rparr>"
      by (simp add: advance_turn_def)
    then show ?thesis by blast
  qed
qed

lemma init_turn_order_frame:
  "\<exists>ord k. init_turn_order g = g\<lparr>current_turn_order := ord, current_turn_index := k\<rparr>"
proof (cases "current_turn_order g = []")
  case True
  then show ?thesis by (auto simp: init_turn_order_def)
next
  case False
  then have "init_turn_order g = g\<lparr>current_turn_order := current_turn_order g, current_turn_index := current_turn_index g\<rparr>"
    by (simp add: init_turn_order_def)
  then show ?thesis by blast
qed

lemma reset_others_nth:
  "j < length ps \<Longrightarrow> reset_others n ps ! j =
     (if name (ps ! j) \<noteq> n \<and> is_active (ps ! j) \<and> \<not> is_all_in (ps ! j)
      then (ps ! j)\<lparr>has_acted := False\<rparr> else ps ! j)"
  by (simp add: reset_others_def)

lemma length_reset_others: "length (reset_others n ps) = length ps"
  by (simp add: reset_others_def)

lemma reset_others_update:
  assumes "i < length ps" and "name q = n"
  shows "reset_others n (ps[i := q]) = (reset_others n ps)[i := q]"
proof (rule nth_equalityI)
  show "length (reset_others n (ps[i := q])) = length ((reset_others n ps)[i := q])"
    by (simp add: length_reset_others)
next
  fix j assume "j < length (reset_others n (ps[i := q]))"
  then have j: "j < length ps" by (simp add: length_reset_others)
  show "reset_others n (ps[i := q]) ! j = (reset_others n ps)[i := q] ! j"
  proof (cases "j = i")
    case True
    with assms j show ?thesis by (simp add: reset_others_nth length_reset_others)
  next
    case False
    with assms j show ?thesis by (simp add: reset_others_nth length_reset_others)
  qed
qed

lemma activate_id: "is_active p \<Longrightarrow> p\<lparr>is_active := True\<rparr> = p"
  by (cases p) simp

lemma activate_player:
  "(if \<not> is_active (players g ! i) then set_player g i (\<lambda>p. p\<lparr>is_active := True\<rparr>) else g)
     = set_player g i (\<lambda>p. p\<lparr>is_active := True\<rparr>)"
  by (cases "is_active (players g ! i)") (simp_all add: set_player_def activate_id)

lemma pot_set_player: "pot (set_player g i f) = pot g"
  by (simp add: set_player_def)

lemma top_up_player:
  "i < length (players g) \<Longrightarrow>
   set_player
     (if balance (players g ! i) < a
      then set_player g i (\<lambda>p. p\<lparr>balance := max 1000 (a * 2)\<rparr>) else g)
     i (\<lambda>p. p\<lparr>balance := balance p - a\<rparr>)
   = set_player g i (\<lambda>p. p\<lparr>balance :=
       (if balance (players g ! i) < a then max 1000 (a * 2) else balance (players g ! i)) - a\<rparr>)"
  by (simp add: set_player_def)

lemma place_bet_known:
  assumes known: "find_player_by_name glob n = Some i" and pos: "0 < a"
  shows "\<exists>g' ord k. place_bet DealerError glob n a =
      (Some g', Inr (BetPlaced (balance (players g' ! i)) (pot g') (game_current_bet g')
                      (next_turn g'))) \<and>
      g' = (get_game glob)\<lparr>
        players :=
          (if game_current_bet (get_game glob) < a
           then reset_others n (players (get_game glob)) else players (get_game glob))
          [i := (players (get_game glob) ! i)\<lparr>
                  is_active := True,
                  balance :=
                    (if balance (players (get_game glob) ! i) < a then max 1000 (a * 2)
                     else balance (players (get_game glob) ! i)) - a,
                  current_bet := a,
                  has_acted := True\<rparr>],
        pot := pot (get_game glob) + a,
        game_current_bet :=
          (if game_current_bet (get_game glob) < a then a else game_current_bet (get_game glob)),
        current_turn_order := ord,
        current_turn_index := k\<rparr>"
proof -
  define g where "g = get_game glob"
  define p where "p = players g ! i"
  define newbal where "newbal = (if balance p < a then max 1000 (a * 2) else balance p) - a"
  have act: "activated glob = g"
    using activated_known [OF known] by (simp add: g_def)
  have fnd: "find_player_by_name (Some g) n = Some i"
    using find_known [OF known] by (simp add: g_def)
  have "first_named (players g) n = Some i"
    using known by (simp add: find_player_by_name_def g_def)
  then have i: "i < length (players g)" and nm: "name p = n"
    using first_named_Some by (auto simp: p_def)
  define g2 where "g2 = set_player g i (\<lambda>p. p\<lparr>is_active := True\<rparr>)"
  define g3 where "g3 = init_turn_order g2"
  obtain o3 k3 where g3: "g3 = g2\<lparr>current_turn_order := o3, current_turn_index := k3\<rparr>"
    unfolding g3_def using init_turn_order_frame by blast
  have p3: "players g3 = (players g)[i := p\<lparr>is_active := True\<rparr>]"
    by (simp add: g3 g2_def set_player_def p_def)
  have b3: "balance (players g3 ! i) = balance p"
    using i by (simp add: p3)
  define g5 where "g5 = set_player
     (if balance (players g3 ! i) < a
      then set_player g3 i (\<lambda>p. p\<lparr>balance := max 1000 (a * 2)\<rparr>) else g3)
     i (\<lambda>p. p\<lparr>balance := balance p - a\<rparr>)"
  have i3: "i < length (players g3)" using i by (simp add: p3)
  have g5: "g5 = set_player g3 i (\<lambda>p. p\<lparr>balance := newbal\<rparr>)"
    unfolding g5_def using top_up_player [OF i3, of a] by (simp add: b3 newbal_def)
  define g7 where "g7 = (set_player g5 i (\<lambda>p. p\<lparr>current_bet := a\<rparr>))\<lparr>pot := pot g5 + a\<rparr>"
  define q where "q = p\<lparr>is_active := True, balance := newbal, current_bet := a\<rparr>"
  have p7: "players g7 = (players g)[i := q]"
    using i by (simp add: g7_def g5 set_player_def p3 q_def)
  have pot7: "pot g7 = pot g + a"
    by (simp add: g7_def g5 set_player_def g3 g2_def)
  have g7frame: "g7 = g\<lparr>players := (players g)[i := q], pot := pot g + a,
      current_turn_order := o3, current_turn_index := k3\<rparr>"
    using i by (simp add: g7_def g5 set_player_def g3 g2_def q_def p_def)
  have nq: "name (players g7 ! i) = n"
    using i nm by (simp add: p7 q_def)
  have tb: "game_current_bet g3 = game_current_bet g"
    by (simp add: g3 g2_def set_player_def)
  define g8 where "g8 = (if a > game_current_bet g3
       then g7\<lparr>game_current_bet := a,
              players := reset_others (name (players g7 ! i)) (players g7)\<rparr>
       else g7)"
  define base where "base = (if game_current_bet g < a then reset_others n (players g) else players g)"
  have bl: "length base = length (players g)"
    by (simp add: base_def length_reset_others)
  have ro: "reset_others n ((players g)[i := q]) = (reset_others n (players g))[i := q]"
    using i nm by (intro reset_others_update) (simp_all add: q_def)
  have g8: "g8 = g\<lparr>players := base[i := q], pot := pot g + a,
      game_current_bet := (if game_current_bet g < a then a else game_current_bet g),
      current_turn_order := o3, current_turn_index := k3\<rparr>"
  proof (cases "game_current_bet g < a")
    case True
    have "name q = n" using nm by (simp add: q_def)
    with True i show ?thesis
      by (simp add: g8_def tb base_def g7frame ro)
  next
    case False
    then show ?thesis
      by (simp add: g8_def tb base_def g7frame)
  qed
  define g9 where "g9 = set_player g8 i (\<lambda>p. p\<lparr>has_acted := True\<rparr>)"
  have g9: "g9 = g\<lparr>players := base[i := q\<lparr>has_acted := True\<rparr>], pot := pot g + a,
      game_current_bet := (if game_current_bet g < a then a else game_current_bet g),
      current_turn_order := o3, current_turn_index := k3\<rparr>"
    using i bl by (simp add: g9_def g8 set_player_def)
  obtain ord k where g10: "advance_turn g9 = g9\<lparr>current_turn_order := ord, current_turn_index := k\<rparr>"
    using advance_turn_frame by blast
  have pb: "place_bet DealerError glob n a =
      (Some (advance_turn g9),
       Inr (BetPlaced (balance (players (advance_turn g9) ! i)) (pot (advance_turn g9))
              (game_current_bet (advance_turn g9)) (next_turn (advance_turn g9))))"
    using pos
    by (simp add: place_bet_def act fnd Let_def activate_player g9_def g8_def g7_def g5_def
        g3_def g2_def pot_set_player)
  have fin: "advance_turn g9 = g\<lparr>players := base[i := q\<lparr>has_acted := True\<rparr>], pot := pot g + a,
      game_current_bet := (if game_current_bet g < a then a else game_current_bet g),
      current_turn_order := ord, current_turn_index := k\<rparr>"
    by (simp add: g10) (simp add: g9)
  show ?thesis
    using pb fin
    by (simp add: g_def [symmetric] p_def [symmetric] q_def newbal_def base_def) blast
qed

lemma find_activated:
  "find_player_by_name (Some (activated glob)) n = find_player_by_name glob n"
  by (simp add: find_player_by_name_def activated_def get_game_active)

lemma place_bet_unknown:
  assumes "find_player_by_name glob n = None"
  shows "place_bet DealerError glob n a =
    (Some (activated glob), Inl (HTTPException 404 ''Player not found''))"
  using assms by (simp add: place_bet_def Let_def find_activated)

lemma place_bet_nonpositive:
  assumes "find_player_by_name glob n = Some i" and "a \<le> 0"
  shows "place_bet DealerError glob n a =
    (Some (init_turn_order (set_player (get_game glob) i (\<lambda>p. p\<lparr>is_active := True\<rparr>))),
     Inl (HTTPException 400 ''Bet amount must be positive''))"
  using assms(2)
  by (simp add: place_bet_def Let_def activated_known [OF assms(1)] find_known [OF assms(1)]
      activate_player)

section \<open>Properties of place_bet\<close>

lemma reset_others_cleared:
  assumes "j < length ps" and "name (reset_others n ps ! j) \<noteq> n"
    and "is_active (reset_others n ps ! j)" and "\<not> is_all_in (reset_others n ps ! j)"
  shows "\<not> has_acted (reset_others n ps ! j)"
  using assms by (simp add: reset_others_nth split: if_splits)

text \<open>
  Claim C5. When \<^verbatim>\<open>place_bet\<close> succeeds with an amount above the table's
  \<^verbatim>\<open>current_bet\<close>, the table's \<^verbatim>\<open>current_bet\<close> becomes the amount, the acting player
  has \<^verbatim>\<open>has_acted\<close> set, and every player of another name who is active and not all-in
  has \<^verbatim>\<open>has_acted\<close> cleared. The source tells the others apart by name
  (\<^verbatim>\<open>p.name != player.name\<close>); when names are distinct, as the data model has them,
  these are all players at another position.
\<close>

theorem place_bet_raise_resets_others:
  assumes "find_player_by_name glob n = Some i" and "0 < a"
    and "game_current_bet (get_game glob) < a"
  shows "\<exists>g' r. place_bet DealerError glob n a = (Some g', Inr r) \<and>
      game_current_bet g' = a \<and>
      length (players g') = length (players (get_game glob)) \<and>
      has_acted (players g' ! i) \<and>
      (\<forall>j < length (players g').
         name (players g' ! j) \<noteq> n \<and> is_active (players g' ! j) \<and>
         \<not> is_all_in (players g' ! j) \<longrightarrow> \<not> has_acted (players g' ! j)) \<and>
      (distinct (map name (players (get_game glob))) \<longrightarrow>
         (\<forall>j < length (players g').
            j \<noteq> i \<and> is_active (players g' ! j) \<and> \<not> is_all_in (players g' ! j) \<longrightarrow>
            \<not> has_acted (players g' ! j)))"
proof -
  define ps where "ps = players (get_game glob)"
  have "first_named ps n = Some i"
    using assms(1) by (simp add: find_player_by_name_def ps_def)
  then have i: "i < length ps" and nm: "name (ps ! i) = n"
    using first_named_Some by auto
  obtain g' ord k where pb: "place_bet DealerError glob n a =
      (Some g', Inr (BetPlaced (balance (players g' ! i)) (pot g') (game_current_bet g')
                      (next_turn g')))"
    and g': "g' = (get_game glob)\<lparr>
        players :=
          (if game_current_bet (get_game glob) < a
           then reset_others n (players (get_game glob)) else players (get_game glob))
          [i := (players (get_game glob) ! i)\<lparr>
                  is_active := True,
                  balance :=
                    (if balance (players (get_game glob) ! i) < a then max 1000 (a * 2)
                     else balance (players (get_game glob) ! i)) - a,
                  current_bet := a,
                  has_acted := True\<rparr>],
        pot := pot (get_game glob) + a,
        game_current_bet :=
          (if game_current_bet (get_game glob) < a then a else game_current_bet (get_game glob)),
        current_turn_order := ord,
        current_turn_index := k\<rparr>"
    using place_bet_known [OF assms(1,2)] by blast
  define p' where "p' = (ps ! i)\<lparr>is_active := True,
      balance := (if balance (ps ! i) < a then max 1000 (a * 2) else balance (ps ! i)) - a,
      current_bet := a, has_acted := True\<rparr>"
  have pl: "players g' = (reset_others n ps)[i := p']"
    using assms(3) by (simp add: g' ps_def p'_def)
  have len: "length (players g') = length ps"
    by (simp add: pl length_reset_others)
  have bet: "game_current_bet g' = a"
    using assms(3) by (simp add: g')
  have self: "has_acted (players g' ! i)" "name (players g' ! i) = n"
    using i nm by (simp_all add: pl length_reset_others p'_def)
  have other: "players g' ! j = reset_others n ps ! j" if "j \<noteq> i" for j
    using that by (simp add: pl)
  have byname: "\<not> has_acted (players g' ! j)"
    if "j < length (players g')" "name (players g' ! j) \<noteq> n"
       "is_active (players g' ! j)" "\<not> is_all_in (players g' ! j)" for j
  proof -
    from that(2) self(2) have "j \<noteq> i" by auto
    with that show ?thesis
      using reset_others_cleared [of j ps n] by (simp add: other len)
  qed
  have byindex: "\<not> has_acted (players g' ! j)"
    if d: "distinct (map name ps)" and "j < length (players g')" "j \<noteq> i"
       "is_active (players g' ! j)" "\<not> is_all_in (players g' ! j)" for j
  proof -
    have j: "j < length ps" using that(2) by (simp add: len)
    have "map name ps ! j \<noteq> map name ps ! i"
      using nth_eq_iff_index_eq [OF d, of j i] i j that(3) by simp
    then have "name (ps ! j) \<noteq> n" using i j nm by simp
    then have "name (players g' ! j) \<noteq> n"
      using j that(3) by (simp add: other reset_others_nth)
    with that show ?thesis using byname by blast
  qed
  show ?thesis
    using pb bet len self(1) byname byindex
    unfolding ps_def by blast
qed

text \<open>Ann raises from 20 to 50; Cy, who had acted, has to act again.\<close>

theorem place_bet_raise_resets_others_witness:
  "find_player_by_name (Some table_game) ''Ann'' = Some 0 \<and>
   game_current_bet table_game = 20 \<and>
   has_acted (players table_game ! 2) \<and>
   (\<exists>g' r. place_bet DealerError (Some table_game) ''Ann'' 50 = (Some g', Inr r) \<and>
      game_current_bet g' = 50 \<and>
      has_acted (players g' ! 0) \<and>
      name (players g' ! 2) = ''Cy'' \<and>
      \<not> has_acted (players g' ! 2))"
proof -
  have f: "find_player_by_name (Some table_game) ''Ann'' = Some 0"
    by (simp add: find_player_by_name_def get_game_def table_game_def)
  have g: "get_game (Some table_game) = table_game"
    by (simp add: get_game_def table_game_def)
  have v: "game_current_bet table_game = 20" "has_acted (players table_game ! 2)"
    "length (players table_game) = 3"
    by (simp_all add: table_game_def)
  have d: "distinct (map name (players table_game))"
    by (simp add: table_game_def)
  have a: "(0::real) < 50" by simp
  have c: "game_current_bet (get_game (Some table_game)) < 50"
    by (simp add: g v)
  obtain g' r where pb: "place_bet DealerError (Some table_game) ''Ann'' 50 = (Some g', Inr r)"
    and b: "game_current_bet g' = 50"
    and l0: "length (players g') = length (players (get_game (Some table_game)))"
    and h: "has_acted (players g' ! 0)"
    and o0: "distinct (map name (players (get_game (Some table_game)))) \<longrightarrow>
         (\<forall>j < length (players g').
            j \<noteq> 0 \<and> is_active (players g' ! j) \<and> \<not> is_all_in (players g' ! j) \<longrightarrow>
            \<not> has_acted (players g' ! j))"
    using place_bet_raise_resets_others [OF f a c] by blast
  have l: "length (players g') = 3" using l0 by (simp add: g v)
  have o: "\<forall>j < length (players g').
            j \<noteq> 0 \<and> is_active (players g' ! j) \<and> \<not> is_all_in (players g' ! j) \<longrightarrow>
            \<not> has_acted (players g' ! j)"
    using o0 d by (simp add: g)
  obtain g2 ord k where pb2: "place_bet DealerError (Some table_game) ''Ann'' 50 =
      (Some g2, Inr (BetPlaced (balance (players g2 ! 0)) (pot g2) (game_current_bet g2)
                      (next_turn g2)))"
    and g2: "g2 = (get_game (Some table_game))\<lparr>
        players :=
          (if game_current_bet (get_game (Some table_game)) < 50
           then reset_others ''Ann'' (players (get_game (Some table_game)))
           else players (get_game (Some table_game)))
          [0 := (players (get_game (Some table_game)) ! 0)\<lparr>
                  is_active := True,
                  balance :=
                    (if balance (players (get_game (Some table_game)) ! 0) < 50
                     then max 1000 (50 * 2)
                     else balance (players (get_game (Some table_game)) ! 0)) - 50,
                  current_bet := 50,
                  has_acted := True\<rparr>],
        pot := pot (get_game (Some table_game)) + 50,
        game_current_bet :=
          (if game_current_bet (get_game (Some table_game)) < 50 then 50
           else game_current_bet (get_game (Some table_game))),
        current_turn_order := ord,
        current_turn_index := k\<rparr>"
    using place_bet_known [OF f, of 50] by auto
  from pb pb2 have same: "g2 = g'" by simp
  have cy: "name (players g' ! 2) = ''Cy''" "is_active (players g' ! 2)"
    "\<not> is_all_in (players g' ! 2)"
    unfolding same [symmetric] g2 g
    by (simp_all add: table_game_def reset_others_def)
  from o l cy have "\<not> has_acted (players g' ! 2)" by simp
  with pb b h cy f v show ?thesis by blast
qed





section \<open>Failing requests\<close>

lemma fold_unknown:
  assumes "find_player_by_name glob n = None"
  shows "fold_action DealerError glob n =
    (Some (activated glob), Inl (HTTPException 404 ''Player not found''))"
  using assms by (simp add: fold_action_def Let_def find_activated)

lemma activated_active: "game_is_active g \<Longrightarrow> activated (Some g) = g"
  by (simp add: activated_def get_game_active)

lemma activated_inactive:
  "glob = None \<or> (\<exists>g. glob = Some g \<and> \<not> game_is_active g) \<Longrightarrow>
   activated glob = fresh_game\<lparr>game_is_active := True\<rparr>"
  by (auto simp: activated_def get_game_def fresh_game_def)

lemma find_inactive:
  "glob = None \<or> (\<exists>g. glob = Some g \<and> \<not> game_is_active g) \<Longrightarrow>
   find_player_by_name glob n = None"
  by (auto simp: find_player_by_name_def get_game_def fresh_game_def)

lemma known_player_game:
  assumes "find_player_by_name glob n = Some i"
  obtains g where "glob = Some g" and "game_is_active g" and "get_game glob = g"
proof -
  have a: "game_is_active (get_game glob)" by (rule known_player_active [OF assms])
  show ?thesis
  proof (cases glob)
    case None
    with a show ?thesis by (simp add: get_game_def fresh_game_def)
  next
    case (Some g)
    with a have "game_is_active g"
      by (cases "game_is_active g") (simp_all add: get_game_def fresh_game_def)
    with Some that show ?thesis by (simp add: get_game_active)
  qed
qed

text \<open>
  Claim C3 says that a failing \<^verbatim>\<open>place_bet\<close> or \<^verbatim>\<open>fold\<close> changes no field of the game
  or of a player. It does not hold as stated. \<^verbatim>\<open>place_bet\<close> sets the named player active
  and fills an empty turn order before it tests the amount: Bob has folded; his bet of 0
  is refused with status 400, and he is active afterwards. And both endpoints fetch the
  game with \<^verbatim>\<open>get_game\<close> and mark it active before the lookup: on a game that has been
  ended, a request for a name nobody has is refused with status 404 and leaves a fresh,
  active game without players.
\<close>

theorem failed_bet_mutates_counterexample:
  "snd (place_bet DealerError (Some table_game) ''Bob'' 0) =
     Inl (HTTPException 400 ''Bet amount must be positive'') \<and>
   fst (place_bet DealerError (Some table_game) ''Bob'' 0) \<noteq> Some table_game \<and>
   \<not> is_active (players table_game ! 1) \<and>
   is_active (players (the (fst (place_bet DealerError (Some table_game) ''Bob'' 0))) ! 1) \<and>
   snd (fold_action DealerError (Some ended_game) ''Zed'') =
     Inl (HTTPException 404 ''Player not found'') \<and>
   fst (fold_action DealerError (Some ended_game) ''Zed'') \<noteq> Some ended_game \<and>
   length (players ended_game) = 3 \<and>
   players (the (fst (fold_action DealerError (Some ended_game) ''Zed''))) = [] \<and>
   \<not> game_is_active ended_game \<and>
   game_is_active (the (fst (fold_action DealerError (Some ended_game) ''Zed'')))"
proof -
  have f: "find_player_by_name (Some table_game) ''Bob'' = Some 1"
    by (simp add: find_player_by_name_def get_game_def table_game_def)
  have g: "get_game (Some table_game) = table_game"
    by (simp add: get_game_def table_game_def)
  have pb: "place_bet DealerError (Some table_game) ''Bob'' 0 =
    (Some (init_turn_order (set_player table_game 1 (\<lambda>p. p\<lparr>is_active := True\<rparr>))),
     Inl (HTTPException 400 ''Bet amount must be positive''))"
    using place_bet_nonpositive [OF f, of 0] by (simp add: g)
  have before: "\<not> is_active (players table_game ! 1)"
    by (simp add: table_game_def)
  have after: "is_active (players (init_turn_order
      (set_player table_game 1 (\<lambda>p. p\<lparr>is_active := True\<rparr>))) ! 1)"
    by (simp add: init_turn_order_def set_player_def table_game_def)
  from before after have ne:
    "init_turn_order (set_player table_game 1 (\<lambda>p. p\<lparr>is_active := True\<rparr>)) \<noteq> table_game"
    by auto
  have e: "\<not> game_is_active ended_game" "length (players ended_game) = 3"
    by (simp_all add: ended_game_def table_game_def)
  have fz: "find_player_by_name (Some ended_game) ''Zed'' = None"
    using e(1) by (intro find_inactive) simp
  have az: "activated (Some ended_game) = fresh_game\<lparr>game_is_active := True\<rparr>"
    using e(1) by (intro activated_inactive) simp
  have fo: "fold_action DealerError (Some ended_game) ''Zed'' =
      (Some (fresh_game\<lparr>game_is_active := True\<rparr>), Inl (HTTPException 404 ''Player not found''))"
    using fold_unknown [OF fz] by (simp add: az)
  have fr: "players (fresh_game\<lparr>game_is_active := True\<rparr>) = []"
    "game_is_active (fresh_game\<lparr>game_is_active := True\<rparr>)"
    by (simp_all add: fresh_game_def)
  have ne2: "fresh_game\<lparr>game_is_active := True\<rparr> \<noteq> ended_game"
  proof
    assume "fresh_game\<lparr>game_is_active := True\<rparr> = ended_game"
    then have "length (players (fresh_game\<lparr>game_is_active := True\<rparr>)) =
        length (players ended_game)" by simp
    with e fr show False by simp
  qed
  show ?thesis
    using before after ne e fr ne2 by (simp add: pb fo)
qed

text \<open>
  Claim C3, amended. A \<^verbatim>\<open>place_bet\<close> or \<^verbatim>\<open>fold\<close> that fails because the name is unknown
  leaves an active game exactly as it was; when the game is not active, or there is none,
  it leaves the fresh game marked active (no such game has a known name, so every request
  fails there). A \<^verbatim>\<open>place_bet\<close> that fails because the amount is not positive finds the
  game active and changes nothing but this: the named player's \<^verbatim>\<open>is_active\<close> is true, and
  a turn order that was empty is the list of the names of the players then active, with the
  turn index 0. When the player was active and the turn order was not empty, the game is
  exactly as it was.
\<close>

theorem failed_bet_or_fold_effects:
  "(\<forall>g. glob = Some g \<and> game_is_active g \<and> find_player_by_name glob n = None \<longrightarrow>
      place_bet DealerError glob n a =
        (Some g, Inl (HTTPException 404 ''Player not found'')) \<and>
      fold_action DealerError glob n =
        (Some g, Inl (HTTPException 404 ''Player not found''))) \<and>
   (glob = None \<or> (\<exists>g. glob = Some g \<and> \<not> game_is_active g) \<longrightarrow>
      place_bet DealerError glob n a =
        (Some (fresh_game\<lparr>game_is_active := True\<rparr>),
         Inl (HTTPException 404 ''Player not found'')) \<and>
      fold_action DealerError glob n =
        (Some (fresh_game\<lparr>game_is_active := True\<rparr>),
         Inl (HTTPException 404 ''Player not found''))) \<and>
   (\<forall>i. find_player_by_name glob n = Some i \<and> a \<le> 0 \<longrightarrow>
      (\<exists>g. glob = Some g \<and> game_is_active g \<and>
         place_bet DealerError glob n a =
           (Some (g\<lparr>players := (players g)[i := (players g ! i)\<lparr>is_active := True\<rparr>],
                     current_turn_order :=
                       (if current_turn_order g = []
                        then map name (filter is_active
                               ((players g)[i := (players g ! i)\<lparr>is_active := True\<rparr>]))
                        else current_turn_order g),
                     current_turn_index :=
                       (if current_turn_order g = [] then 0 else current_turn_index g)\<rparr>),
            Inl (HTTPException 400 ''Bet amount must be positive'')) \<and>
         (is_active (players g ! i) \<and> current_turn_order g \<noteq> [] \<longrightarrow>
            place_bet DealerError glob n a =
              (Some g, Inl (HTTPException 400 ''Bet amount must be positive'')))))"
proof (intro conjI allI impI)
  fix g
  assume h: "glob = Some g \<and> game_is_active g \<and> find_player_by_name glob n = None"
  then have u: "find_player_by_name glob n = None" and gs: "glob = Some g"
    and ga: "game_is_active g" by blast+
  have ag: "activated glob = g"
    unfolding gs using ga by (rule activated_active)
  show "place_bet DealerError glob n a =
        (Some g, Inl (HTTPException 404 ''Player not found''))"
    using place_bet_unknown [OF u, of a] by (simp add: ag)
  show "fold_action DealerError glob n =
        (Some g, Inl (HTTPException 404 ''Player not found''))"
    using fold_unknown [OF u] by (simp add: ag)
next
  assume h: "glob = None \<or> (\<exists>g. glob = Some g \<and> \<not> game_is_active g)"
  show "place_bet DealerError glob n a =
        (Some (fresh_game\<lparr>game_is_active := True\<rparr>),
         Inl (HTTPException 404 ''Player not found''))"
    using place_bet_unknown [OF find_inactive [OF h]] activated_inactive [OF h] by simp
  show "fold_action DealerError glob n =
        (Some (fresh_game\<lparr>game_is_active := True\<rparr>),
         Inl (HTTPException 404 ''Player not found''))"
    using fold_unknown [OF find_inactive [OF h]] activated_inactive [OF h] by simp
next
  fix i
  assume h: "find_player_by_name glob n = Some i \<and> a \<le> 0"
  then have k: "find_player_by_name glob n = Some i" and le: "a \<le> 0" by simp_all
  from known_player_game [OF k] obtain g where
    g: "glob = Some g" "game_is_active g" "get_game glob = g" by blast
  define ps where "ps = (players g)[i := (players g ! i)\<lparr>is_active := True\<rparr>]"
  have pb: "place_bet DealerError glob n a =
      (Some (init_turn_order (set_player g i (\<lambda>p. p\<lparr>is_active := True\<rparr>))),
       Inl (HTTPException 400 ''Bet amount must be positive''))"
    using place_bet_nonpositive [OF k le] unfolding g(3) .
  have it: "init_turn_order (set_player g i (\<lambda>p. p\<lparr>is_active := True\<rparr>)) =
      g\<lparr>players := ps,
        current_turn_order :=
          (if current_turn_order g = [] then map name (filter is_active ps)
           else current_turn_order g),
        current_turn_index :=
          (if current_turn_order g = [] then 0 else current_turn_index g)\<rparr>"
    by (simp add: init_turn_order_def set_player_def active_names_def ps_def)
  have same: "place_bet DealerError glob n a =
      (Some g, Inl (HTTPException 400 ''Bet amount must be positive''))"
    if "is_active (players g ! i) \<and> current_turn_order g \<noteq> []"
  proof -
    have "ps = players g" using that by (simp add: ps_def activate_id)
    with that have "init_turn_order (set_player g i (\<lambda>p. p\<lparr>is_active := True\<rparr>)) = g"
      by (simp add: it)
    with pb show ?thesis by simp
  qed
  show "\<exists>g. glob = Some g \<and> game_is_active g \<and>
         place_bet DealerError glob n a =
           (Some (g\<lparr>players := (players g)[i := (players g ! i)\<lparr>is_active := True\<rparr>],
                     current_turn_order :=
                       (if current_turn_order g = []
                        then map name (filter is_active
                               ((players g)[i := (players g ! i)\<lparr>is_active := True\<rparr>]))
                        else current_turn_order g),
                     current_turn_index :=
                       (if current_turn_order g = [] then 0 else current_turn_index g)\<rparr>),
            Inl (HTTPException 400 ''Bet amount must be positive'')) \<and>
         (is_active (players g ! i) \<and> current_turn_order g \<noteq> [] \<longrightarrow>
            place_bet DealerError glob n a =
              (Some g, Inl (HTTPException 400 ''Bet amount must be positive'')))"
    using g(1,2) pb same unfolding it ps_def by (intro exI [of _ g]) simp
qed

text \<open>
  Zed is not at the table: on the active table both requests fail and the game is
  unchanged; on the ended game both fail and leave the fresh, active game. Ann is active
  and the turn order is not empty: her bet of 0 fails and the game is unchanged. With an
  empty turn order, Bob's bet of 0 fails, Bob is active and the turn order names Ann, Bob
  and Cy, with index 0.
\<close>

theorem failed_bet_or_fold_effects_witness:
  "game_is_active table_game \<and>
   find_player_by_name (Some table_game) ''Zed'' = None \<and>
   place_bet DealerError (Some table_game) ''Zed'' 5 =
     (Some table_game, Inl (HTTPException 404 ''Player not found'')) \<and>
   fold_action DealerError (Some table_game) ''Zed'' =
     (Some table_game, Inl (HTTPException 404 ''Player not found'')) \<and>
   \<not> game_is_active ended_game \<and>
   place_bet DealerError (Some ended_game) ''Ann'' 5 =
     (Some (fresh_game\<lparr>game_is_active := True\<rparr>),
      Inl (HTTPException 404 ''Player not found'')) \<and>
   fold_action DealerError (Some ended_game) ''Ann'' =
     (Some (fresh_game\<lparr>game_is_active := True\<rparr>),
      Inl (HTTPException 404 ''Player not found'')) \<and>
   find_player_by_name (Some table_game) ''Ann'' = Some 0 \<and>
   is_active (players table_game ! 0) \<and>
   current_turn_order table_game \<noteq> [] \<and>
   place_bet DealerError (Some table_game) ''Ann'' 0 =
     (Some table_game, Inl (HTTPException 400 ''Bet amount must be positive'')) \<and>
   find_player_by_name (Some no_order_game) ''Bob'' = Some 1 \<and>
   current_turn_order no_order_game = [] \<and>
   snd (place_bet DealerError (Some no_order_game) ''Bob'' 0) =
     Inl (HTTPException 400 ''Bet amount must be positive'') \<and>
   current_turn_order (the (fst (place_bet DealerError (Some no_order_game) ''Bob'' 0))) =
     [''Ann'', ''Bob'', ''Cy''] \<and>
   current_turn_index (the (fst (place_bet DealerError (Some no_order_game) ''Bob'' 0))) = 0 \<and>
   is_active (players (the (fst (place_bet DealerError (Some no_order_game) ''Bob'' 0))) ! 1)"
proof -
  have a: "game_is_active table_game" by (simp add: table_game_def)
  have z: "find_player_by_name (Some table_game) ''Zed'' = None"
    by (simp add: find_player_by_name_def get_game_def table_game_def)
  have f: "find_player_by_name (Some table_game) ''Ann'' = Some 0"
    by (simp add: find_player_by_name_def get_game_def table_game_def)
  have v: "is_active (players table_game ! 0)" "current_turn_order table_game \<noteq> []"
    by (simp_all add: table_game_def)
  have e: "\<not> game_is_active ended_game" by (simp add: ended_game_def)
  have fb: "find_player_by_name (Some no_order_game) ''Bob'' = Some 1"
    by (simp add: find_player_by_name_def get_game_def no_order_game_def table_game_def)
  have no: "current_turn_order no_order_game = []" by (simp add: no_order_game_def)
  have le: "(0::real) \<le> 0" by simp
  have p1: "place_bet DealerError (Some table_game) ''Zed'' 5 =
     (Some table_game, Inl (HTTPException 404 ''Player not found'')) \<and>
   fold_action DealerError (Some table_game) ''Zed'' =
     (Some table_game, Inl (HTTPException 404 ''Player not found''))"
    using failed_bet_or_fold_effects [of "Some table_game" "''Zed''" 5] a z by blast
  have p2: "place_bet DealerError (Some ended_game) ''Ann'' 5 =
     (Some (fresh_game\<lparr>game_is_active := True\<rparr>),
      Inl (HTTPException 404 ''Player not found'')) \<and>
   fold_action DealerError (Some ended_game) ''Ann'' =
     (Some (fresh_game\<lparr>game_is_active := True\<rparr>),
      Inl (HTTPException 404 ''Player not found''))"
    using failed_bet_or_fold_effects [of "Some ended_game" "''Ann''" 5] e by blast
  have p3: "place_bet DealerError (Some table_game) ''Ann'' 0 =
     (Some table_game, Inl (HTTPException 400 ''Bet amount must be positive''))"
    using failed_bet_or_fold_effects [of "Some table_game" "''Ann''" 0] f v le by auto
  obtain g where g: "Some no_order_game = Some g"
    and p4: "place_bet DealerError (Some no_order_game) ''Bob'' 0 =
           (Some (g\<lparr>players := (players g)[1 := (players g ! 1)\<lparr>is_active := True\<rparr>],
                     current_turn_order :=
                       (if current_turn_order g = []
                        then map name (filter is_active
                               ((players g)[1 := (players g ! 1)\<lparr>is_active := True\<rparr>]))
                        else current_turn_order g),
                     current_turn_index :=
                       (if current_turn_order g = [] then 0 else current_turn_index g)\<rparr>),
            Inl (HTTPException 400 ''Bet amount must be positive''))"
    using failed_bet_or_fold_effects [of "Some no_order_game" "''Bob''" 0] fb le by blast
  from g have g': "g = no_order_game" by simp
  have q: "snd (place_bet DealerError (Some no_order_game) ''Bob'' 0) =
     Inl (HTTPException 400 ''Bet amount must be positive'')"
    "current_turn_order (the (fst (place_bet DealerError (Some no_order_game) ''Bob'' 0))) =
     [''Ann'', ''Bob'', ''Cy'']"
    "current_turn_index (the (fst (place_bet DealerError (Some no_order_game) ''Bob'' 0))) = 0"
    "is_active (players (the (fst (place_bet DealerError (Some no_order_game) ''Bob'' 0))) ! 1)"
    unfolding p4 g' by (simp_all add: no_order_game_def table_game_def)
  show ?thesis
    using a z f v e fb no p1 p2 p3 q by blast
qed

section \<open>Properties of determine_winner\<close>

lemma py_max_nonempty: "xs \<noteq> [] \<Longrightarrow> py_max xs = Inr (Max (set xs))"
proof (cases xs)
  case Nil
  assume "xs \<noteq> []"
  with Nil show ?thesis by simp
next
  case (Cons x ys)
  have "fold max ys x = Max (set (x # ys))"
    by (rule Max.set_eq_fold [symmetric])
  with Cons show ?thesis by simp
qed

lemma player_scores_eq:
  "player_scores ps =
     Inr (map (\<lambda>p. \<lparr>entry_name = name p, score = Max (card_value ` set (cards p)),
                      hand_type = ''high_card''\<rparr>)
            (filter (\<lambda>p. 2 \<le> length (cards p)) ps))"
proof (induction ps)
  case Nil
  then show ?case by simp
next
  case (Cons p ps)
  show ?case
  proof (cases "2 \<le> length (cards p)")
    case True
    then have ne: "map card_value (cards p) \<noteq> []" by auto
    have "py_max (map card_value (cards p)) = Inr (Max (card_value ` set (cards p)))"
      using py_max_nonempty [OF ne] by simp
    with True Cons show ?thesis by auto
  next
    case False
    with Cons show ?thesis by auto
  qed
qed

lemma card_value_range:
  "rank c \<in> set ranks \<Longrightarrow> 2 \<le> card_value c \<and> card_value c \<le> 14"
  by (auto simp: ranks_def card_value_def CARD_VALUES_def)

lemma determine_winner_scored:
  assumes "2 \<le> length (filter is_active (players g))"
    and "filter (\<lambda>p. 2 \<le> length (cards p)) (filter is_active (players g)) \<noteq> []"
  shows "determine_winner g =
    (let scored = filter (\<lambda>p. 2 \<le> length (cards p)) (filter is_active (players g));
         best = Max ((\<lambda>p. Max (card_value ` set (cards p))) ` set scored);
         tied = filter (\<lambda>p. Max (card_value ` set (cards p)) = best) scored;
         winners = map (\<lambda>p. \<lparr>entry_name = name p, score = Max (card_value ` set (cards p)),
                               hand_type = ''high_card''\<rparr>) tied
     in if length tied = 1 then Inr (OneWinner (hd winners)) else Inr (Winners winners))"
proof -
  define active where "active = filter is_active (players g)"
  define scored where "scored = filter (\<lambda>p. 2 \<le> length (cards p)) active"
  define entry where "entry = (\<lambda>p::player. \<lparr>entry_name = name p, score = Max (card_value ` set (cards p)),
                               hand_type = ''high_card''\<rparr>)"
  have a: "active \<noteq> []" "length active \<noteq> 1"
    using assms(1) by (auto simp: active_def)
  have s: "scored \<noteq> []" using assms(2) by (simp add: scored_def active_def)
  have ps: "player_scores active = Inr (map entry scored)"
    by (simp add: player_scores_eq scored_def entry_def)
  have sc: "map score (map entry scored) = map (\<lambda>p. Max (card_value ` set (cards p))) scored"
    by (simp add: entry_def)
  have mx: "py_max (map score (map entry scored)) =
      Inr (Max ((\<lambda>p. Max (card_value ` set (cards p))) ` set scored))"
  proof -
    have "map (\<lambda>p. Max (card_value ` set (cards p))) scored \<noteq> []"
      using s by simp
    from py_max_nonempty [OF this] show ?thesis
      unfolding sc by simp
  qed
  have fl: "filter (\<lambda>e. score e = b) (map entry scored) =
      map entry (filter (\<lambda>p. Max (card_value ` set (cards p)) = b) scored)" for b
    by (simp add: filter_map entry_def comp_def)
  have dw: "determine_winner g =
      (case py_max (map score (map entry scored)) of
         Inl e \<Rightarrow> Inl e
       | Inr m \<Rightarrow>
           (let winners = filter (\<lambda>e. score e = m) (map entry scored)
            in if length winners = 1 then Inr (OneWinner (hd winners))
               else Inr (Winners winners)))"
    using a s by (simp add: determine_winner_def active_def [symmetric] ps Let_def del: map_map)
  have "determine_winner g =
      (if length (filter (\<lambda>p. Max (card_value ` set (cards p)) =
                 Max ((\<lambda>p. Max (card_value ` set (cards p))) ` set scored)) scored) = 1
       then Inr (OneWinner (hd (map entry
              (filter (\<lambda>p. Max (card_value ` set (cards p)) =
                 Max ((\<lambda>p. Max (card_value ` set (cards p))) ` set scored)) scored))))
       else Inr (Winners (map entry
              (filter (\<lambda>p. Max (card_value ` set (cards p)) =
                 Max ((\<lambda>p. Max (card_value ` set (cards p))) ` set scored)) scored))))"
    unfolding dw mx by (simp add: fl Let_def)
  then show ?thesis
    unfolding Let_def scored_def active_def entry_def .
qed

lemma determine_winner_default:
  "filter is_active (players g) = [p] \<Longrightarrow>
   determine_winner g = Inr (DefaultWin (name p) ''default_win'')"
  by (simp add: determine_winner_def)

lemma tied_nonempty:
  fixes scored :: "player list" and high :: "player \<Rightarrow> int"
  assumes "scored \<noteq> []"
  shows "filter (\<lambda>p. high p = Max (high ` set scored)) scored \<noteq> []"
proof -
  have "Max (high ` set scored) \<in> high ` set scored"
    using assms by (intro Max_in) simp_all
  then obtain q where "q \<in> set scored" "high q = Max (high ` set scored)" by auto
  then show ?thesis by (auto simp: filter_empty_conv)
qed

lemma ace_high: "card_value c = 14 \<longleftrightarrow> rank c = ''A''"
  by (simp add: card_value_def CARD_VALUES_def)

lemma rank_values:
  fixes c :: card
  shows "map (\<lambda>r. card_value (c\<lparr>rank := r\<rparr>)) ranks =
    [2, 3, 4, 5, 6, 7, 8, 9, 10, 11, 12, 13, 14]"
  by (simp add: ranks_def card_value_def CARD_VALUES_def)

lemma unknown_rank_value: "rank c \<notin> set ranks \<Longrightarrow> card_value c = 0"
  by (simp add: ranks_def card_value_def CARD_VALUES_def)

lemma showdown_values:
  "card_value (mk_card ''A'' s) = 14" "card_value (mk_card ''2'' s) = 2"
  "card_value (mk_card ''K'' s) = 13" "card_value (mk_card ''Q'' s) = 12"
  "card_value (mk_card ''J'' s) = 11" "card_value (mk_card ''9'' s) = 9"
  "card_value (mk_card ''4'' s) = 4" "card_value (mk_card ''3'' s) = 3"
  by (simp_all add: mk_card_def card_value_def CARD_VALUES_def)

text \<open>
  Claim C7. With exactly one active player, \<^verbatim>\<open>determine_winner\<close> returns that player as
  a default win, whatever the hands. With two or more active players, of whom at least
  one holds two cards or more, it compares only the active players holding at least two
  cards; a player's score is the greatest rank value in the hand; the thirteen ranks 2,
  3, ..., 10, J, Q, K, A have the values 2, 3, ..., 14 in this order (so the values lie
  between 2 and 14 and 14 is the Ace's alone), and a rank that is none of them has the
  value 0; the result is the one player whose score is the greatest, or the list of all
  players with that score when there are several. It never raises.
\<close>

theorem determine_winner_high_card:
  fixes g :: game
  defines "active \<equiv> filter is_active (players g)"
  defines "scored \<equiv> filter (\<lambda>p. 2 \<le> length (cards p)) active"
  defines "high \<equiv> \<lambda>p::player. Max (card_value ` set (cards p))"
  defines "tied \<equiv> filter (\<lambda>p. high p = Max (high ` set scored)) scored"
  defines "entry \<equiv> \<lambda>p::player.
             \<lparr>entry_name = name p, score = high p, hand_type = ''high_card''\<rparr>"
  shows "(\<forall>p. active = [p] \<longrightarrow>
            determine_winner g = Inr (DefaultWin (name p) ''default_win'')) \<and>
         (2 \<le> length active \<and> scored \<noteq> [] \<longrightarrow>
            tied \<noteq> [] \<and>
            determine_winner g =
              Inr (if length tied = 1 then OneWinner (entry (hd tied))
                   else Winners (map entry tied))) \<and>
         (\<forall>c. map (\<lambda>r. card_value (c\<lparr>rank := r\<rparr>)) ranks =
                [2, 3, 4, 5, 6, 7, 8, 9, 10, 11, 12, 13, 14]) \<and>
         (\<forall>c. rank c \<notin> set ranks \<longrightarrow> card_value c = 0) \<and>
         (\<forall>c. rank c \<in> set ranks \<longrightarrow> 2 \<le> card_value c \<and> card_value c \<le> 14) \<and>
         (\<forall>c. card_value c = 14 \<longleftrightarrow> rank c = ''A'')"
proof (intro conjI allI impI)
  fix c :: card
  show "map (\<lambda>r. card_value (c\<lparr>rank := r\<rparr>)) ranks =
      [2, 3, 4, 5, 6, 7, 8, 9, 10, 11, 12, 13, 14]"
    by (rule rank_values)
next
  fix c :: card assume "rank c \<notin> set ranks"
  then show "card_value c = 0" by (rule unknown_rank_value)
next
  fix p assume "active = [p]"
  then show "determine_winner g = Inr (DefaultWin (name p) ''default_win'')"
    unfolding active_def by (rule determine_winner_default)
next
  assume h: "2 \<le> length active \<and> scored \<noteq> []"
  show ne: "tied \<noteq> []"
    unfolding tied_def using h by (intro tied_nonempty) simp
  have "determine_winner g =
      (if length tied = 1 then Inr (OneWinner (hd (map entry tied)))
       else Inr (Winners (map entry tied)))"
    using determine_winner_scored [of g] h
    unfolding active_def scored_def tied_def entry_def high_def Let_def by simp
  then show "determine_winner g =
      Inr (if length tied = 1 then OneWinner (entry (hd tied)) else Winners (map entry tied))"
    using ne by (simp add: hd_map)
next
  fix c :: card assume "rank c \<in> set ranks"
  then show "2 \<le> card_value c" "card_value c \<le> 14"
    using card_value_range by blast+
next
  fix c :: card show "card_value c = 14 \<longleftrightarrow> rank c = ''A''" by (rule ace_high)
qed

text \<open>
  Ann's Ace and 2 beat Bob's King and Queen; Cy, active with a lone Ace, is not compared,
  and neither is Dee, who has folded with two Aces. Two Ace-high hands split the pot.
  A single active player wins without any cards. Without an Ace at the table, Bob's King
  beats Cy's Queen and Ann's 9.
\<close>

theorem determine_winner_high_card_witness:
  "filter is_active (players showdown_game) =
     [mk_hand ''Ann'' True [mk_card ''A'' ''spades'', mk_card ''2'' ''hearts''],
      mk_hand ''Bob'' True [mk_card ''K'' ''clubs'', mk_card ''Q'' ''clubs''],
      mk_hand ''Cy'' True [mk_card ''A'' ''hearts'']] \<and>
   determine_winner showdown_game =
     Inr (OneWinner \<lparr>entry_name = ''Ann'', score = 14, hand_type = ''high_card''\<rparr>) \<and>
   filter is_active (players tie_game) =
     [mk_hand ''Ann'' True [mk_card ''A'' ''spades'', mk_card ''2'' ''hearts''],
      mk_hand ''Bob'' True [mk_card ''A'' ''clubs'', mk_card ''K'' ''clubs'']] \<and>
   determine_winner tie_game =
     Inr (Winners [\<lparr>entry_name = ''Ann'', score = 14, hand_type = ''high_card''\<rparr>,
                   \<lparr>entry_name = ''Bob'', score = 14, hand_type = ''high_card''\<rparr>]) \<and>
   filter is_active (players lone_game) = [mk_hand ''Ann'' True []] \<and>
   determine_winner lone_game = Inr (DefaultWin ''Ann'' ''default_win'') \<and>
   filter is_active (players kings_game) =
     [mk_hand ''Ann'' True [mk_card ''9'' ''clubs'', mk_card ''3'' ''clubs''],
      mk_hand ''Bob'' True [mk_card ''4'' ''hearts'', mk_card ''K'' ''spades''],
      mk_hand ''Cy'' True [mk_card ''Q'' ''hearts'', mk_card ''J'' ''diamonds'']] \<and>
   determine_winner kings_game =
     Inr (OneWinner \<lparr>entry_name = ''Bob'', score = 13, hand_type = ''high_card''\<rparr>) \<and>
   card_value (mk_card ''K'' ''spades'') = 13 \<and>
   card_value (mk_card ''Q'' ''hearts'') = 12 \<and>
   card_value (mk_card ''9'' ''clubs'') = 9"
proof -
  have a4: "filter is_active (players kings_game) =
     [mk_hand ''Ann'' True [mk_card ''9'' ''clubs'', mk_card ''3'' ''clubs''],
      mk_hand ''Bob'' True [mk_card ''4'' ''hearts'', mk_card ''K'' ''spades''],
      mk_hand ''Cy'' True [mk_card ''Q'' ''hearts'', mk_card ''J'' ''diamonds'']]"
    by (simp add: kings_game_def mk_game_def mk_hand_def)
  have a1: "filter is_active (players showdown_game) =
     [mk_hand ''Ann'' True [mk_card ''A'' ''spades'', mk_card ''2'' ''hearts''],
      mk_hand ''Bob'' True [mk_card ''K'' ''clubs'', mk_card ''Q'' ''clubs''],
      mk_hand ''Cy'' True [mk_card ''A'' ''hearts'']]"
    by (simp add: showdown_game_def mk_game_def mk_hand_def)
  have a2: "filter is_active (players tie_game) =
     [mk_hand ''Ann'' True [mk_card ''A'' ''spades'', mk_card ''2'' ''hearts''],
      mk_hand ''Bob'' True [mk_card ''A'' ''clubs'', mk_card ''K'' ''clubs'']]"
    by (simp add: tie_game_def mk_game_def mk_hand_def)
  have a3: "filter is_active (players lone_game) = [mk_hand ''Ann'' True []]"
    by (simp add: lone_game_def mk_game_def mk_hand_def)
  have c: "cards (mk_hand n act cs) = cs" "name (mk_hand n act cs) = n" for n act cs
    by (simp_all add: mk_hand_def)
  have d1: "determine_winner showdown_game =
     Inr (OneWinner \<lparr>entry_name = ''Ann'', score = 14, hand_type = ''high_card''\<rparr>)"
    using determine_winner_high_card [of showdown_game]
    by (simp add: a1 c showdown_values)
  have d2: "determine_winner tie_game =
     Inr (Winners [\<lparr>entry_name = ''Ann'', score = 14, hand_type = ''high_card''\<rparr>,
                   \<lparr>entry_name = ''Bob'', score = 14, hand_type = ''high_card''\<rparr>])"
    using determine_winner_high_card [of tie_game]
    by (simp add: a2 c showdown_values)
  have d3: "determine_winner lone_game = Inr (DefaultWin ''Ann'' ''default_win'')"
    using determine_winner_high_card [of lone_game]
    by (simp add: a3 c)
  have d4: "determine_winner kings_game =
     Inr (OneWinner \<lparr>entry_name = ''Bob'', score = 13, hand_type = ''high_card''\<rparr>)"
    using determine_winner_high_card [of kings_game]
    by (simp add: a4 c showdown_values)
  have v: "card_value (mk_card ''K'' ''spades'') = 13"
    "card_value (mk_card ''Q'' ''hearts'') = 12"
    "card_value (mk_card ''9'' ''clubs'') = 9"
    by (simp_all add: showdown_values)
  show ?thesis using a1 a2 a3 a4 d1 d2 d3 d4 v by simp
qed

text \<open>
  Claim C10. With two or more active players none of whom holds two cards,
  \<^verbatim>\<open>determine_winner\<close> returns \<^verbatim>\<open>None\<close>: it neither raises nor names a winner.
\<close>

theorem determine_winner_none_without_hands:
  assumes "2 \<le> length (filter is_active (players g))"
    and "\<forall>p \<in> set (players g). is_active p \<longrightarrow> length (cards p) < 2"
  shows "determine_winner g = Inr NoWinner"
proof -
  have "filter (\<lambda>p. 2 \<le> length (cards p)) (filter is_active (players g)) = []"
    using assms(2) by (auto simp: filter_empty_conv)
  then have "player_scores (filter is_active (players g)) = Inr []"
    by (simp add: player_scores_eq)
  moreover have "filter is_active (players g) \<noteq> []"
    "length (filter is_active (players g)) \<noteq> 1"
    using assms(1) by auto
  ultimately show ?thesis by (simp add: determine_winner_def)
qed

text \<open>Ann holds one card and Bob none.\<close>

theorem determine_winner_none_without_hands_witness:
  "length (filter is_active (players bare_game)) = 2 \<and>
   list_all (\<lambda>p. length (cards p) < 2) (players bare_game) \<and>
   determine_winner bare_game = Inr NoWinner"
proof -
  have a: "2 \<le> length (filter is_active (players bare_game))"
    by (simp add: bare_game_def mk_game_def mk_hand_def)
  have b: "\<forall>p \<in> set (players bare_game). is_active p \<longrightarrow> length (cards p) < 2"
    by (simp add: bare_game_def mk_game_def mk_hand_def)
  have c: "list_all (\<lambda>p. length (cards p) < 2) (players bare_game)"
    by (simp add: bare_game_def mk_game_def mk_hand_def)
  have d: "length (filter is_active (players bare_game)) = 2"
    by (simp add: bare_game_def mk_game_def mk_hand_def)
  show ?thesis
    using determine_winner_none_without_hands [OF a b] c d by simp
qed

section \<open>Properties of end_game\<close>

text \<open>
  Claim C9 says that \<^verbatim>\<open>end_game\<close> removes no player. It does not hold as stated:
  \<^verbatim>\<open>end_game\<close> fetches the game with \<^verbatim>\<open>get_game\<close>, which replaces a game that is not
  active by a fresh one. Ending a game that has already been ended leaves a game without
  players.
\<close>

theorem end_game_drops_players_counterexample:
  "length (players ended_game) = 3 \<and>
   \<not> game_is_active ended_game \<and>
   snd (end_game (Some ended_game)) = GameEnded \<and>
   players (the (fst (end_game (Some ended_game)))) = []"
  by (simp add: end_game_def Let_def get_game_def fresh_game_def ended_game_def table_game_def)

text \<open>
  Claim C9, amended. On an active game, \<^verbatim>\<open>end_game\<close> marks the game inactive, sets the
  pot to 0, empties \<^verbatim>\<open>side_pots\<close> and clears every player's cards, \<^verbatim>\<open>current_bet\<close>,
  \<^verbatim>\<open>is_all_in\<close> and \<^verbatim>\<open>has_acted\<close>; the players, their names and their balances are as
  before, so the chips of the pot are paid to nobody. On a game that is not active, or
  when there is none, the result is the fresh game, which has no players.
\<close>

theorem end_game_resets_active_game:
  "(game_is_active g \<longrightarrow>
      end_game (Some g) =
        (Some (g\<lparr>game_is_active := False, pot := 0,
                  side_pots := (if side_pots g \<noteq> None then Some [] else side_pots g),
                  players := map (\<lambda>p. p\<lparr>cards := [], current_bet := 0, is_all_in := False,
                                        has_acted := False\<rparr>) (players g)\<rparr>),
         GameEnded) \<and>
      length (players (the (fst (end_game (Some g))))) = length (players g) \<and>
      map name (players (the (fst (end_game (Some g))))) = map name (players g) \<and>
      map balance (players (the (fst (end_game (Some g))))) = map balance (players g) \<and>
      pot (the (fst (end_game (Some g)))) = 0 \<and>
      \<not> game_is_active (the (fst (end_game (Some g))))) \<and>
   (\<not> game_is_active g \<longrightarrow>
      end_game (Some g) = (Some fresh_game, GameEnded)) \<and>
   end_game None = (Some fresh_game, GameEnded)"
proof (intro conjI impI)
  assume a: "game_is_active g"
  show e: "end_game (Some g) =
        (Some (g\<lparr>game_is_active := False, pot := 0,
                  side_pots := (if side_pots g \<noteq> None then Some [] else side_pots g),
                  players := map (\<lambda>p. p\<lparr>cards := [], current_bet := 0, is_all_in := False,
                                        has_acted := False\<rparr>) (players g)\<rparr>),
         GameEnded)"
    using a by (simp add: end_game_def Let_def get_game_active)
  show "length (players (the (fst (end_game (Some g))))) = length (players g)"
    by (simp add: e)
  show "map name (players (the (fst (end_game (Some g))))) = map name (players g)"
    by (simp add: e comp_def)
  show "map balance (players (the (fst (end_game (Some g))))) = map balance (players g)"
    by (simp add: e comp_def)
  show "pot (the (fst (end_game (Some g)))) = 0"
    by (simp add: e)
  show "\<not> game_is_active (the (fst (end_game (Some g))))"
    by (simp add: e)
next
  assume "\<not> game_is_active g"
  then show "end_game (Some g) = (Some fresh_game, GameEnded)"
    by (simp add: end_game_def Let_def get_game_def fresh_game_def)
next
  show "end_game None = (Some fresh_game, GameEnded)"
    by (simp add: end_game_def Let_def get_game_def fresh_game_def)
qed

text \<open>The table with a pot of 100 and balances 30, 900 and 1000.\<close>

theorem end_game_resets_active_game_witness:
  "game_is_active table_game \<and>
   pot table_game = 100 \<and>
   map balance (players table_game) = [30, 900, 1000] \<and>
   map balance (players (the (fst (end_game (Some table_game))))) = [30, 900, 1000] \<and>
   map name (players (the (fst (end_game (Some table_game))))) = [''Ann'', ''Bob'', ''Cy''] \<and>
   pot (the (fst (end_game (Some table_game)))) = 0 \<and>
   \<not> game_is_active (the (fst (end_game (Some table_game))))"
proof -
  have a: "game_is_active table_game" by (simp add: table_game_def)
  have v: "pot table_game = 100" "map balance (players table_game) = [30, 900, 1000]"
    "map name (players table_game) = [''Ann'', ''Bob'', ''Cy'']"
    by (simp_all add: table_game_def)
  have c: "map balance (players (the (fst (end_game (Some table_game))))) =
      map balance (players table_game)"
    "map name (players (the (fst (end_game (Some table_game))))) =
      map name (players table_game)"
    "pot (the (fst (end_game (Some table_game)))) = 0"
    "\<not> game_is_active (the (fst (end_game (Some table_game))))"
    using end_game_resets_active_game [of table_game] a by blast+
  show ?thesis
    using a v c by simp
qed

section \<open>Properties of join_game\<close>

text \<open>
  On an active game and a new name, a deck of two cards or more (an empty deck is first
  replaced by a shuffled new one) gives the new player its first two cards.
\<close>

lemma join_game_deals_two:
  assumes "game_is_active g" and "find_player_by_name (Some g) n = None"
    and "(if deck g = [] then shuffle new_deck else deck g) = c1 # c2 # rest"
  shows "join_game shuffle (Some g) n url =
    (Some (g\<lparr>deck := rest,
             players := players g @ [(new_player n url)\<lparr>cards := [c1, c2]\<rparr>],
             current_turn_order := current_turn_order g @ [n]\<rparr>),
     Inr Joined)"
proof (cases "deck g = []")
  case True
  with assms show ?thesis
    by (simp add: join_game_def Let_def get_game_active new_player_def)
next
  case False
  with assms show ?thesis
    by (simp add: join_game_def Let_def get_game_active new_player_def)
qed

text \<open>
  Claim C2 says that a newly joined player always holds exactly two cards, the deck being
  recreated when it holds fewer than two. \<^verbatim>\<open>join_game\<close> recreates the deck only when it
  is empty (\<^verbatim>\<open>not game.deck\<close>), while \<^verbatim>\<open>show_cards\<close> in the same file also tests
  \<^verbatim>\<open>len(game.deck) < 2\<close>. With one card left in the deck, whatever the shuffle, the
  player joins with no cards and the deck keeps its card.
\<close>

theorem join_game_one_card_left:
  "deck one_card_game = [mk_card ''A'' ''spades''] \<and>
   game_is_active one_card_game \<and>
   find_player_by_name (Some one_card_game) ''Zed'' = None \<and>
   snd (join_game shuffle (Some one_card_game) ''Zed'' url) = Inr Joined \<and>
   name (last (players (the (fst (join_game shuffle (Some one_card_game) ''Zed'' url))))) = ''Zed'' \<and>
   cards (last (players (the (fst (join_game shuffle (Some one_card_game) ''Zed'' url))))) = [] \<and>
   deck (the (fst (join_game shuffle (Some one_card_game) ''Zed'' url))) =
     [mk_card ''A'' ''spades'']"
proof -
  have g: "get_game (Some one_card_game) = one_card_game" and a: "game_is_active one_card_game"
    by (simp_all add: get_game_def one_card_game_def table_game_def)
  have d: "deck one_card_game = [mk_card ''A'' ''spades'']"
    by (simp add: one_card_game_def)
  have f: "find_player_by_name (Some one_card_game) ''Zed'' = None"
    by (simp add: find_player_by_name_def get_game_def one_card_game_def table_game_def)
  show ?thesis
    using a
    by (simp add: join_game_def Let_def g f d new_player_def)
qed

end
